theory Spec2Isabelle
  imports Complex_Main "HOL-Library.Sublist"
begin

section \<open>Conventions\<close>

text \<open>
  The development embeds the layout and flow-resolution functions of yamldocs.
  A JavaScript \<open>number\<close> is modelled as a \<open>real\<close> (rounding, NaN and the infinities
  of IEEE doubles are outside the model), a JavaScript string as a \<open>string\<close> whose
  characters stand for the code units of the source string, an optional property
  \<open>p?: T\<close> as \<open>T option\<close> (\<open>None\<close> is \<open>undefined\<close>).  A string is truthy when it is
  not empty; an optional string is truthy when it is present and not empty.
\<close>

definition truthy :: "string option \<Rightarrow> bool" where
  "truthy s = (case s of None \<Rightarrow> False | Some v \<Rightarrow> v \<noteq> [])"

definition flag :: "bool option \<Rightarrow> bool" where
  "flag b = (b = Some True)"

text \<open>\<open>s ?? ''\<close> on an optional string.\<close>

definition orEmpty :: "string option \<Rightarrow> string" where
  "orEmpty s = (case s of None \<Rightarrow> [] | Some v \<Rightarrow> v)"

text \<open>\<open>xs.join(sep)\<close> on an array of strings.\<close>

fun js_join :: "string \<Rightarrow> string list \<Rightarrow> string" where
  "js_join sep [] = []"
| "js_join sep [s] = s"
| "js_join sep (s # t # ts) = s @ sep @ js_join sep (t # ts)"

section \<open>Text measurement and wrapping (generators/pdf/utils.ts)\<close>

text \<open>\<open>estimateTextWidth\<close>: \<open>text.length * fontSize * 0.5\<close>.\<close>

definition estimateTextWidth :: "string \<Rightarrow> real \<Rightarrow> real" where
  "estimateTextWidth text fontSize = real (length text) * fontSize * 0.5"

text \<open>
  \<open>text.split(' ')\<close>: the pieces between single space characters.  The empty string
  gives one empty piece, and two adjacent spaces give an empty piece between them.
\<close>

fun js_split :: "string \<Rightarrow> string list" where
  "js_split [] = [[]]"
| "js_split (c # cs) =
     (if c = CHR '' '' then [] # js_split cs
      else (case js_split cs of [] \<Rightarrow> [[c]] | w # ws \<Rightarrow> (c # w) # ws))"

text \<open>
  The body of the \<open>for (const word of words)\<close> loop of \<open>wrapText\<close>, as one step on
  the two mutable locals \<open>lines\<close> and \<open>currentLine\<close>.
\<close>

definition wrap_step :: "real \<Rightarrow> real \<Rightarrow> string list \<times> string \<Rightarrow> string \<Rightarrow> string list \<times> string" where
  "wrap_step maxWidth fontSize st word =
     (case st of (lines, currentLine) \<Rightarrow>
        let testLine = (if currentLine \<noteq> [] then currentLine @ '' '' @ word else word);
            testWidth = estimateTextWidth testLine fontSize
        in if testWidth > maxWidth \<and> currentLine \<noteq> []
           then (lines @ [currentLine], word)
           else (lines, testLine))"

text \<open>
  The end of \<open>wrapText\<close>: \<open>if (currentLine) lines.push(currentLine); return lines\<close>.
\<close>

definition wrap_finish :: "string list \<times> string \<Rightarrow> string list" where
  "wrap_finish st =
     (case st of (lines, currentLine) \<Rightarrow>
        if currentLine \<noteq> [] then lines @ [currentLine] else lines)"

definition wrapText :: "string \<Rightarrow> real \<Rightarrow> real \<Rightarrow> string list" where
  "wrapText text maxWidth fontSize =
     wrap_finish (foldl (wrap_step maxWidth fontSize) ([], []) (js_split text))"

text \<open>The non-empty space-delimited words of a string, in order.\<close>

definition nonEmptyWords :: "string \<Rightarrow> string list" where
  "nonEmptyWords s = filter (\<lambda>w. w \<noteq> []) (js_split s)"

text \<open>
  Whitespace normalisation as the specification words it: runs of whitespace become
  one space, and leading and trailing whitespace is dropped.  It is not part of the
  source; the properties of \<open>wrapText\<close> are compared with it.
\<close>

definition isWhitespace :: "char \<Rightarrow> bool" where
  "isWhitespace c =
     (c = CHR '' '' \<or> c = CHR 0x09 \<or> c = CHR 0x0A \<or> c = CHR 0x0B \<or> c = CHR 0x0C
      \<or> c = CHR 0x0D)"

fun splitWhitespace :: "string \<Rightarrow> string list" where
  "splitWhitespace [] = [[]]"
| "splitWhitespace (c # cs) =
     (if isWhitespace c then [] # splitWhitespace cs
      else (case splitWhitespace cs of [] \<Rightarrow> [[c]] | w # ws \<Rightarrow> (c # w) # ws))"

definition whitespaceNormalized :: "string \<Rightarrow> string" where
  "whitespaceNormalized s = js_join '' '' (filter (\<lambda>w. w \<noteq> []) (splitWhitespace s))"

section \<open>Footer resolution (generators/footer-utils.ts)\<close>

text \<open>
  The types \<open>FormMetadata\<close>, \<open>FooterConfig\<close> and \<open>FooterSocialLinks\<close> are declared in
  \<open>types/schema.ts\<close>; the records below hold the properties the functions read.
  The title of a form is a string (\<open>generatePdf\<close> hands it to \<open>doc.setTitle\<close> and
  \<open>renderCoverPageHtml\<close> to \<open>escapeHtml\<close>), so \<open>form.title ?? ''\<close> is the title.
\<close>

record FormMetadata =
  title :: string
  version :: "string option"
  author :: "string option"
  pages :: "real option"
  stylesheet :: "string option"

record FooterSeparator =
  enabled :: "bool option"
  color :: "string option"
  thickness :: "real option"

record FooterSocialLinks =
  youtube :: "string option"
  x :: "string option"
  facebook :: "string option"
  linkedin :: "string option"
  github :: "string option"
  website :: "string option"

record FooterConfig =
  enabled :: "bool option"
  left :: "string option"
  center :: "string option"
  right :: "string option"
  "text" :: "string option"
  copyright :: "string option"
  showPageNumbers :: "bool option"
  showVersion :: "bool option"
  showDate :: "bool option"
  separator :: "FooterSeparator option"
  socialLinks :: "FooterSocialLinks option"

record ResolvedFooterSeparator =
  enabled :: bool
  color :: string
  thickness :: real

record ResolvedFooter =
  enabled :: bool
  left :: string
  center :: string
  right :: string
  separator :: ResolvedFooterSeparator
  socialLinks :: FooterSocialLinks

subsection \<open>\<open>String.prototype.replace\<close> with a global literal pattern\<close>

text \<open>
  The replacement argument of \<open>replace\<close> is a template: \<open>$$\<close> stands for a dollar
  sign, \<open>$&\<close> for the matched text, \<open>$\<close> followed by a backquote for the text
  preceding the match and \<open>$'\<close> for the text following it.  The patterns of this
  module have no capture groups, so every other \<open>$\<close> is copied as it is.
\<close>

fun getSubstitution :: "string \<Rightarrow> string \<Rightarrow> string \<Rightarrow> string \<Rightarrow> string" where
  "getSubstitution matched preceding following [] = []"
| "getSubstitution matched preceding following [c] = [c]"
| "getSubstitution matched preceding following (c # d # cs) =
     (if c = CHR ''$'' \<and> d = CHR ''$''
        then CHR ''$'' # getSubstitution matched preceding following cs
      else if c = CHR ''$'' \<and> d = CHR ''&''
        then matched @ getSubstitution matched preceding following cs
      else if c = CHR ''$'' \<and> d = CHR ''`''
        then preceding @ getSubstitution matched preceding following cs
      else if c = CHR ''$'' \<and> d = CHR 0x27
        then following @ getSubstitution matched preceding following cs
      else c # getSubstitution matched preceding following (d # cs))"

text \<open>
  \<open>replace_from pat rep preceding rest\<close> scans \<open>rest\<close> from the left for the
  non-overlapping occurrences of the non-empty literal \<open>pat\<close>; \<open>preceding\<close> is the
  part of the subject string already scanned.
\<close>

function replace_from :: "string \<Rightarrow> string \<Rightarrow> string \<Rightarrow> string \<Rightarrow> string" where
  "replace_from pat rep preceding [] = []"
| "replace_from pat rep preceding (c # cs) =
     (if pat \<noteq> [] \<and> prefix pat (c # cs)
      then getSubstitution pat preceding (drop (length pat) (c # cs)) rep
           @ replace_from pat rep (preceding @ pat) (drop (length pat) (c # cs))
      else c # replace_from pat rep (preceding @ [c]) cs)"
  by pat_completeness auto
termination
  by (relation "measure (\<lambda>(pat, rep, preceding, rest). length rest)")
     (auto simp: neq_Nil_conv)

definition replaceAll :: "string \<Rightarrow> string \<Rightarrow> string \<Rightarrow> string" where
  "replaceAll pat rep s = replace_from pat rep [] s"

text \<open>Whether the literal \<open>pat\<close> occurs somewhere in a string.\<close>

fun occurs :: "string \<Rightarrow> string \<Rightarrow> bool" where
  "occurs pat [] = (pat = [])"
| "occurs pat (c # cs) = (prefix pat (c # cs) \<or> occurs pat cs)"

subsection \<open>\<open>resolveStaticVariables\<close>\<close>

text \<open>
  The three replacements that read the form metadata, in the order of the source.
\<close>

definition resolveFormVariables :: "string \<Rightarrow> FormMetadata \<Rightarrow> string" where
  "resolveFormVariables str form =
     replaceAll ''{{author}}'' (orEmpty (author form))
       (replaceAll ''{{version}}'' (orEmpty (version form))
         (replaceAll ''{{title}}'' (title form) str))"

text \<open>
  \<open>localeDate\<close> is the value of \<open>new Date().toLocaleDateString()\<close> at the time of the
  call: the clock and the locale of the process are inputs of the function.
\<close>

definition resolveStaticVariables :: "string \<Rightarrow> string \<Rightarrow> FormMetadata \<Rightarrow> string" where
  "resolveStaticVariables localeDate str form =
     (if str = [] then str
      else replaceAll ''{{date}}'' localeDate (resolveFormVariables str form))"

subsection \<open>\<open>resolveFooterConfig\<close>\<close>

definition defaultSeparator :: ResolvedFooterSeparator where
  "defaultSeparator =
     \<lparr> ResolvedFooterSeparator.enabled = False, color = ''#cccccc'', thickness = 0.5 \<rparr>"

text \<open>The empty object \<open>{}\<close> of type \<open>FooterSocialLinks\<close>.\<close>

definition noSocialLinks :: FooterSocialLinks where
  "noSocialLinks =
     \<lparr> youtube = None, x = None, facebook = None, linkedin = None, github = None,
       website = None \<rparr>"

text \<open>\<open>if (src.p) socialLinks.p = src.p\<close>: a platform is copied when its URL is truthy.\<close>

definition keepLink :: "string option \<Rightarrow> string option" where
  "keepLink url = (if truthy url then url else None)"

definition filterSocialLinks :: "FooterSocialLinks option \<Rightarrow> FooterSocialLinks" where
  "filterSocialLinks links =
     (case links of
        None \<Rightarrow> noSocialLinks
      | Some src \<Rightarrow>
          \<lparr> youtube = keepLink (youtube src), x = keepLink (x src),
            facebook = keepLink (facebook src), linkedin = keepLink (linkedin src),
            github = keepLink (github src), website = keepLink (website src) \<rparr>)"

text \<open>\<open>Object.keys(socialLinks).length\<close>.\<close>

definition socialLinkCount :: "FooterSocialLinks \<Rightarrow> nat" where
  "socialLinkCount links =
     length (filter (\<lambda>url. url \<noteq> None)
       [youtube links, x links, facebook links, linkedin links, github links, website links])"

text \<open>
  The locals \<open>left\<close>, \<open>center\<close> and \<open>right\<close> of \<open>resolveFooterConfig\<close> after the
  shorthands \<open>text\<close>, \<open>copyright\<close>, \<open>showPageNumbers\<close>, \<open>showVersion\<close> and \<open>showDate\<close>
  have been applied, before the static variables are resolved.
\<close>

definition footerSlots :: "FooterConfig \<Rightarrow> FormMetadata \<Rightarrow> string \<times> string \<times> string" where
  "footerSlots footer form =
     (let left0 = orEmpty (FooterConfig.left footer);
          center0 = orEmpty (FooterConfig.center footer);
          right0 = orEmpty (FooterConfig.right footer);
          center1 = (if truthy (FooterConfig.text footer) \<and> center0 = []
                     then orEmpty (FooterConfig.text footer) else center0);
          left1 = (if truthy (copyright footer) \<and> left0 = []
                   then orEmpty (copyright footer) else left0);
          right1 = (if flag (showPageNumbers footer) \<and> right0 = []
                    then ''Page {{page}} of {{pages}}'' else right0);
          center2 = (if flag (showVersion footer) \<and> truthy (version form)
                     then (let versionText = ''Version '' @ orEmpty (version form)
                           in if center1 \<noteq> [] then center1 @ '' - '' @ versionText
                              else versionText)
                     else center1)
      in if flag (showDate footer)
         then (let dateText = ''{{date}}''
               in if left1 = [] \<and> \<not> truthy (copyright footer)
                    then (dateText, center2, right1)
                  else if right1 = [] \<and> \<not> flag (showPageNumbers footer)
                    then (left1, center2, dateText)
                  else (left1,
                        (if center2 \<noteq> [] then center2 @ '' | '' @ dateText else dateText),
                        right1))
         else (left1, center2, right1))"

definition resolveSeparator :: "FooterSeparator option \<Rightarrow> ResolvedFooterSeparator" where
  "resolveSeparator sep =
     \<lparr> ResolvedFooterSeparator.enabled =
         (case sep of None \<Rightarrow> False
          | Some s \<Rightarrow> (case FooterSeparator.enabled s of None \<Rightarrow> False | Some b \<Rightarrow> b)),
       color =
         (case sep of None \<Rightarrow> ''#cccccc''
          | Some s \<Rightarrow> (case FooterSeparator.color s of None \<Rightarrow> ''#cccccc'' | Some c \<Rightarrow> c)),
       thickness =
         (case sep of None \<Rightarrow> 0.5
          | Some s \<Rightarrow> (case FooterSeparator.thickness s of None \<Rightarrow> 0.5 | Some t \<Rightarrow> t)) \<rparr>"

definition resolveFooterConfig ::
  "string \<Rightarrow> FooterConfig option \<Rightarrow> FormMetadata \<Rightarrow> ResolvedFooter" where
  "resolveFooterConfig localeDate footerOpt form =
     (case footerOpt of
        None \<Rightarrow>
          \<lparr> ResolvedFooter.enabled = truthy (version form),
            left = [],
            center = (if truthy (version form) then ''Version '' @ orEmpty (version form)
                      else []),
            right = [],
            separator = defaultSeparator,
            socialLinks = noSocialLinks \<rparr>
      | Some footer \<Rightarrow>
          if FooterConfig.enabled footer = Some False
          then \<lparr> ResolvedFooter.enabled = False, left = [], center = [], right = [],
                 separator = defaultSeparator, socialLinks = noSocialLinks \<rparr>
          else
            (case footerSlots footer form of
               (left0, center0, right0) \<Rightarrow>
                 let left1 = resolveStaticVariables localeDate left0 form;
                     center1 = resolveStaticVariables localeDate center0 form;
                     right1 = resolveStaticVariables localeDate right0 form;
                     links = filterSocialLinks (FooterConfig.socialLinks footer);
                     hasContent = (left1 \<noteq> [] \<or> center1 \<noteq> [] \<or> right1 \<noteq> []
                                   \<or> socialLinkCount links > 0)
                 in \<lparr> ResolvedFooter.enabled = hasContent,
                      left = left1, center = center1, right = right1,
                      separator = resolveSeparator (FooterConfig.separator footer),
                      socialLinks = links \<rparr>))"

text \<open>
  Whether a call of \<open>resolveFooterConfig\<close> resolves no \<open>{{date}}\<close> token: the footer
  is absent or explicitly disabled, or none of the three slots holds the token once the
  form variables have been substituted.
\<close>

definition dateFree :: "FooterConfig option \<Rightarrow> FormMetadata \<Rightarrow> bool" where
  "dateFree footerOpt form =
     (case footerOpt of
        None \<Rightarrow> True
      | Some footer \<Rightarrow>
          FooterConfig.enabled footer = Some False \<or>
          (case footerSlots footer form of
             (left0, center0, right0) \<Rightarrow>
               \<not> occurs ''{{date}}'' (resolveFormVariables left0 form) \<and>
               \<not> occurs ''{{date}}'' (resolveFormVariables center0 form) \<and>
               \<not> occurs ''{{date}}'' (resolveFormVariables right0 form)))"

section \<open>PDF generation (generators/pdf/index.ts)\<close>

subsection \<open>Fields and their positions\<close>

text \<open>
  \<open>NormalizedFormField\<close> is declared in \<open>types/index.ts\<close>.  The record holds the
  properties read here; the type-specific attributes of a field are the extension of
  the record, which every function below carries along unchanged.
\<close>

record FieldPosition =
  x :: real
  y :: real

record NormalizedFormField =
  type :: string
  page :: real
  position :: FieldPosition

definition adjustFieldPosition ::
  "'f NormalizedFormField_scheme \<Rightarrow> real \<Rightarrow> 'f NormalizedFormField_scheme" where
  "adjustFieldPosition field contentBaselineY =
     (if page field \<noteq> 1 then field
      else field\<lparr> position := (position field)\<lparr> y := contentBaselineY + y (position field) \<rparr> \<rparr>)"

subsection \<open>Errors and the state of a generation run\<close>

text \<open>
  A thrown exception (a rejected promise) is the left summand of the result; a call
  that follows a failed one is not made.
\<close>

datatype error = Thrown string

definition and_then :: "error + 'a \<Rightarrow> ('a \<Rightarrow> error + 'b) \<Rightarrow> error + 'b" where
  "and_then m k = (case m of Inl e \<Rightarrow> Inl e | Inr v \<Rightarrow> k v)"

text \<open>
  \<open>xs[i]\<close> on a JavaScript array: \<open>undefined\<close> unless \<open>i\<close> is an integer index of the
  array.
\<close>

definition js_index :: "'a list \<Rightarrow> real \<Rightarrow> 'a option" where
  "js_index xs i =
     (if 0 \<le> i \<and> i < real (length xs) \<and> i = of_int \<lfloor>i\<rfloor> then Some (xs ! nat \<lfloor>i\<rfloor>)
      else None)"

text \<open>
  The mutable state of one run: the parts of the \<open>LayoutContext\<close> that \<open>generatePdf\<close>
  reads (\<open>ctx.pages\<close>, \<open>ctx.cursor\<close>, \<open>ctx.drawnElements\<close>), the lines written by
  \<open>console.warn\<close>, and \<open>document\<close> for everything else the modules outside this file
  keep (the \<open>PDFDocument\<close>, the stylesheet).
\<close>

record ('page, 'el, 'r) world =
  pages :: "'page list"
  cursor :: FieldPosition
  drawnElements :: "'el list"
  console :: "string list"
  document :: 'r

subsection \<open>\<open>addFieldToDocument\<close>\<close>

text \<open>
  The drawing functions of \<open>generators/pdf/fields/index.ts\<close>, each with the page and
  the field it is called with.  Their code is outside this file: the function
  \<open>draw\<close> below stands for them, and may change the state in any way or throw.
\<close>

datatype ('page, 'f) leaf =
    createTextField "'page option" "'f NormalizedFormField_scheme"
  | drawFieldLabel "'page option" "'f NormalizedFormField_scheme"
  | createCheckboxField "'page option" "'f NormalizedFormField_scheme"
  | drawCheckboxLabel "'page option" "'f NormalizedFormField_scheme"
  | createRadioGroup "'page option" "'f NormalizedFormField_scheme"
  | drawRadioGroupLabels "'page option" "'f NormalizedFormField_scheme"
  | createDropdownField "'page option" "'f NormalizedFormField_scheme"
  | drawDropdownLabel "'page option" "'f NormalizedFormField_scheme"
  | createTextareaField "'page option" "'f NormalizedFormField_scheme"
  | drawTextareaLabel "'page option" "'f NormalizedFormField_scheme"
  | createSignatureField "'page option" "'f NormalizedFormField_scheme"
  | drawSignatureFieldWithLabel "'page option" "'f NormalizedFormField_scheme"

text \<open>\<open>Math.min(field.page - 1 + pageOffset, ctx.pages.length - 1)\<close>.\<close>

definition pageIndex :: "real \<Rightarrow> real \<Rightarrow> nat \<Rightarrow> real" where
  "pageIndex fieldPage pageOffset pagesLength =
     min (fieldPage - 1 + pageOffset) (real pagesLength - 1)"

definition addFieldToDocument ::
  "(('page, 'f) leaf \<Rightarrow> ('page, 'el, 'r) world \<Rightarrow> error + ('page, 'el, 'r) world) \<Rightarrow>
   ('page, 'el, 'r) world \<Rightarrow> 'f NormalizedFormField_scheme \<Rightarrow> bool \<Rightarrow> real \<Rightarrow>
   error + ('page, 'el, 'r) world" where
  "addFieldToDocument draw w field skipLabels pageOffset =
     (let pg = js_index (world.pages w)
                 (pageIndex (page field) pageOffset (length (world.pages w)))
      in if type field = ''text''
           then and_then (draw (createTextField pg field) w)
                  (\<lambda>w1. if \<not> skipLabels then draw (drawFieldLabel pg field) w1 else Inr w1)
         else if type field = ''checkbox''
           then and_then (draw (createCheckboxField pg field) w)
                  (draw (drawCheckboxLabel pg field))
         else if type field = ''radio''
           then and_then (draw (createRadioGroup pg field) w)
                  (draw (drawRadioGroupLabels pg field))
         else if type field = ''dropdown''
           then and_then (draw (createDropdownField pg field) w)
                  (draw (drawDropdownLabel pg field))
         else if type field = ''textarea''
           then and_then (draw (createTextareaField pg field) w)
                  (\<lambda>w1. if \<not> skipLabels then draw (drawTextareaLabel pg field) w1 else Inr w1)
         else if type field = ''signature''
           then and_then (draw (createSignatureField pg field) w)
                  (draw (drawSignatureFieldWithLabel pg field))
         else Inr (w\<lparr> console := console w @ [''Unknown field type: '' @ type field] \<rparr>))"

text \<open>The case labels of the \<open>switch\<close> of \<open>addFieldToDocument\<close>.\<close>

definition knownFieldTypes :: "string list" where
  "knownFieldTypes =
     [''text'', ''checkbox'', ''radio'', ''dropdown'', ''textarea'', ''signature'']"

text \<open>
  The loop \<open>for (const field of schema.fields)\<close> of \<open>generatePdf\<close>, on the state and
  the counter \<open>fieldCount\<close>.
\<close>

fun addFields ::
  "(('page, 'f) leaf \<Rightarrow> ('page, 'el, 'r) world \<Rightarrow> error + ('page, 'el, 'r) world) \<Rightarrow>
   bool \<Rightarrow> real \<Rightarrow> real \<Rightarrow> 'f NormalizedFormField_scheme list \<Rightarrow>
   ('page, 'el, 'r) world \<Rightarrow> nat \<Rightarrow> error + (('page, 'el, 'r) world \<times> nat)" where
  "addFields draw skipLabels offset contentBaselineY [] w fieldCount = Inr (w, fieldCount)"
| "addFields draw skipLabels offset contentBaselineY (field # remaining) w fieldCount =
     (case addFieldToDocument draw w (adjustFieldPosition field contentBaselineY)
             skipLabels offset of
        Inl e \<Rightarrow> Inl e
      | Inr w' \<Rightarrow>
          addFields draw skipLabels offset contentBaselineY remaining w' (fieldCount + 1))"

section \<open>The cover page of the schema (types/schema.ts)\<close>

record RevisionEntry =
  version :: string
  date :: string
  author :: string
  description :: string

record CoverPage =
  coverImage :: "string option"
  watermark :: "string option"
  logo :: "string option"
  subtitle :: "string option"
  organization :: "string option"
  department :: "string option"
  documentNumber :: "string option"
  documentType :: "string option"
  status :: "string option"
  classification :: "string option"
  date :: "string option"
  effectiveDate :: "string option"
  reviewDate :: "string option"
  preparedBy :: "string option"
  reviewedBy :: "string option"
  approvedBy :: "string option"
  revisionHistory :: "RevisionEntry list option"
  copyright :: "string option"
  disclaimer :: "string option"
  distributionStatement :: "string option"

section \<open>HTML cover page (generators/html/coverpage.ts)\<close>

text \<open>
  \<open>text.replace(/[&<>"']/g, (char) => map[char])\<close>: every character of the class
  is replaced by its entry in \<open>map\<close>, every other character is kept.
\<close>

definition escapeChar :: "char \<Rightarrow> string" where
  "escapeChar c =
     (if c = CHR ''&'' then ''&amp;''
      else if c = CHR ''<'' then ''&lt;''
      else if c = CHR ''>'' then ''&gt;''
      else if c = CHR 0x22 then ''&quot;''
      else if c = CHR 0x27 then ''&#039;''
      else [c])"

definition escapeHtml :: "string \<Rightarrow> string" where
  "escapeHtml str = concat (map escapeChar str)"

text \<open>The locals of \<open>renderCoverPageHtml\<close>, in the order of the source.\<close>

definition coverImageStyle :: "CoverPage \<Rightarrow> string" where
  "coverImageStyle coverPage =
     (if truthy (coverImage coverPage)
      then '' style=\"background-image: url(''
           @ [CHR 0x27] @ escapeHtml (orEmpty (coverImage coverPage))
           @ [CHR 0x27]
             @ ''); background-size: cover; background-position: center; background-repeat: no-repeat;\"''
      else [])"

definition watermarkHtml :: "CoverPage \<Rightarrow> string" where
  "watermarkHtml coverPage =
     (if truthy (watermark coverPage)
      then ''<div class=\"cover-watermark\">'' @ escapeHtml (orEmpty (watermark coverPage))
           @ ''</div>''
      else [])"

definition logoHtml :: "CoverPage \<Rightarrow> string" where
  "logoHtml coverPage =
     (if truthy (logo coverPage)
      then ''<div class=\"cover-logo\"><img src=\"'' @ escapeHtml (orEmpty (logo coverPage))
           @ ''\" alt=\"Logo\" /></div>''
      else [])"

definition titleHtml :: "FormMetadata \<Rightarrow> string" where
  "titleHtml formMeta =
     ''<h1 class=\"cover-title\">'' @ escapeHtml (title formMeta) @ ''</h1>''"

definition subtitleHtml :: "CoverPage \<Rightarrow> string" where
  "subtitleHtml coverPage =
     (if truthy (subtitle coverPage)
      then ''<p class=\"cover-subtitle\">'' @ escapeHtml (orEmpty (subtitle coverPage))
           @ ''</p>''
      else [])"

definition metaFields :: "FormMetadata \<Rightarrow> CoverPage \<Rightarrow> (string \<times> string option) list" where
  "metaFields formMeta coverPage =
     [(''Organization'', organization coverPage),
      (''Department'', department coverPage),
      (''Document #'', documentNumber coverPage),
      (''Type'', documentType coverPage),
      (''Status'', status coverPage),
      (''Classification'', classification coverPage),
      (''Date'', CoverPage.date coverPage),
      (''Effective Date'', effectiveDate coverPage),
      (''Review Date'', reviewDate coverPage),
      (''Version'', FormMetadata.version formMeta),
      (''Author'', FormMetadata.author formMeta),
      (''Prepared By'', preparedBy coverPage),
      (''Reviewed By'', reviewedBy coverPage),
      (''Approved By'', approvedBy coverPage)]"

definition metaRow :: "string \<times> string option \<Rightarrow> string" where
  "metaRow entry =
     ''<tr><td class=\"cover-meta-label\">'' @ escapeHtml (fst entry)
     @ ''</td><td class=\"cover-meta-value\">'' @ escapeHtml (orEmpty (snd entry))
     @ ''</td></tr>''"

definition metaRows :: "FormMetadata \<Rightarrow> CoverPage \<Rightarrow> string" where
  "metaRows formMeta coverPage =
     js_join ''\<newline>''
       (map metaRow (filter (\<lambda>entry. truthy (snd entry)) (metaFields formMeta coverPage)))"

definition metaHtml :: "FormMetadata \<Rightarrow> CoverPage \<Rightarrow> string" where
  "metaHtml formMeta coverPage =
     (if metaRows formMeta coverPage \<noteq> []
      then ''<table class=\"cover-metadata\">'' @ metaRows formMeta coverPage @ ''</table>''
      else [])"

definition revisionRow :: "RevisionEntry \<Rightarrow> string" where
  "revisionRow entry =
     ''<tr>\<newline>''
     @ ''            <td>'' @ escapeHtml (RevisionEntry.version entry)
     @ ''</td>\<newline>''
       @ ''            <td>'' @ escapeHtml (RevisionEntry.date entry)
     @ ''</td>\<newline>''
       @ ''            <td>'' @ escapeHtml (RevisionEntry.author entry)
     @ ''</td>\<newline>''
       @ ''            <td>'' @ escapeHtml (RevisionEntry.description entry)
     @ ''</td>\<newline>''
       @ ''          </tr>''"

definition revisionHtml :: "CoverPage \<Rightarrow> string" where
  "revisionHtml coverPage =
     (case revisionHistory coverPage of
        None \<Rightarrow> []
      | Some history \<Rightarrow>
          if length history > 0
          then ''\<newline>''
               @ ''      <div class=\"cover-revision-history\">\<newline>''
               @ ''        <h3>Revision History</h3>\<newline>''
               @ ''        <table>\<newline>''
               @ ''          <thead>\<newline>''
               @ ''            <tr>\<newline>''
               @ ''              <th>Version</th>\<newline>''
               @ ''              <th>Date</th>\<newline>''
               @ ''              <th>Author</th>\<newline>''
               @ ''              <th>Description</th>\<newline>''
               @ ''            </tr>\<newline>''
               @ ''          </thead>\<newline>''
               @ ''          <tbody>'' @ js_join ''\<newline>'' (map revisionRow history)
               @ ''</tbody>\<newline>''
                 @ ''        </table>\<newline>''
                 @ ''      </div>''
          else [])"

definition legalFields :: "CoverPage \<Rightarrow> string list" where
  "legalFields coverPage =
     map orEmpty
       (filter truthy
          [CoverPage.copyright coverPage, disclaimer coverPage,
           distributionStatement coverPage])"

definition legalHtml :: "CoverPage \<Rightarrow> string" where
  "legalHtml coverPage =
     (if length (legalFields coverPage) > 0
      then ''<div class=\"cover-legal\">\<newline>''
           @ ''        '' @ js_join ''\<newline>''
                (map (\<lambda>t. ''<p>'' @ escapeHtml t @ ''</p>'') (legalFields coverPage))
           @ ''\<newline>''
             @ ''      </div>''
      else [])"

definition renderCoverPageHtml :: "FormMetadata \<Rightarrow> CoverPage \<Rightarrow> string" where
  "renderCoverPageHtml formMeta coverPage =
     ''\<newline>''
     @ ''    <div class=\"page cover-page\"'' @ coverImageStyle coverPage
     @ ''>\<newline>''
       @ ''      '' @ watermarkHtml coverPage
     @ ''\<newline>''
       @ ''      <div class=\"cover-content\">\<newline>''
       @ ''        '' @ logoHtml coverPage
     @ ''\<newline>''
       @ ''        '' @ titleHtml formMeta
     @ ''\<newline>''
       @ ''        '' @ subtitleHtml coverPage
     @ ''\<newline>''
       @ ''        <hr class=\"cover-divider\" />\<newline>''
       @ ''        '' @ metaHtml formMeta coverPage
     @ ''\<newline>''
       @ ''        '' @ revisionHtml coverPage
     @ ''\<newline>''
       @ ''      </div>\<newline>''
       @ ''      '' @ legalHtml coverPage
     @ ''\<newline>''
       @ ''    </div>''"

text \<open>
  The characters that delimit markup in the output, and whether every ampersand of a
  string starts one of the five entities that \<open>escapeHtml\<close> writes.
\<close>

definition isMarkupChar :: "char \<Rightarrow> bool" where
  "isMarkupChar c = (c = CHR ''<'' \<or> c = CHR ''>'' \<or> c = CHR 0x22 \<or> c = CHR 0x27)"

definition entityTail :: "string \<Rightarrow> bool" where
  "entityTail cs =
     (prefix ''amp;'' cs \<or> prefix ''lt;'' cs \<or> prefix ''gt;'' cs \<or> prefix ''quot;'' cs
      \<or> prefix ''#039;'' cs)"

fun ampersandsEscaped :: "string \<Rightarrow> bool" where
  "ampersandsEscaped [] = True"
| "ampersandsEscaped (c # cs) =
     (if c = CHR ''&'' then entityTail cs \<and> ampersandsEscaped cs else ampersandsEscaped cs)"

text \<open>
  Two inputs of \<open>renderCoverPageHtml\<close> have the same shape when the same optional
  parts are present (truthy) in both and their revision histories have the same
  length; the strings themselves are unconstrained.
\<close>

definition historyLength :: "CoverPage \<Rightarrow> nat" where
  "historyLength coverPage =
     (case revisionHistory coverPage of None \<Rightarrow> 0 | Some history \<Rightarrow> length history)"

definition sameShape :: "FormMetadata \<Rightarrow> CoverPage \<Rightarrow> FormMetadata \<Rightarrow> CoverPage \<Rightarrow> bool" where
  "sameShape formMeta coverPage formMeta' coverPage' =
     (truthy (coverImage coverPage) = truthy (coverImage coverPage')
      \<and> truthy (watermark coverPage) = truthy (watermark coverPage')
      \<and> truthy (logo coverPage) = truthy (logo coverPage')
      \<and> truthy (subtitle coverPage) = truthy (subtitle coverPage')
      \<and> map (\<lambda>entry. truthy (snd entry)) (metaFields formMeta coverPage)
          = map (\<lambda>entry. truthy (snd entry)) (metaFields formMeta' coverPage')
      \<and> historyLength coverPage = historyLength coverPage'
      \<and> map truthy [CoverPage.copyright coverPage, disclaimer coverPage,
                      distributionStatement coverPage]
          = map truthy [CoverPage.copyright coverPage', disclaimer coverPage',
                        distributionStatement coverPage'])"

section \<open>\<open>generatePdf\<close> (generators/pdf/index.ts)\<close>

record ('f, 'c) ParsedFormSchema =
  form :: FormMetadata
  coverPage :: "CoverPage option"
  footer :: "FooterConfig option"
  content :: "'c list option"
  formFields :: "'f NormalizedFormField_scheme list"

text \<open>
  \<open>formFields\<close> is the property \<open>fields\<close> of the schema (the name \<open>fields\<close> is taken
  by the record package).
\<close>

record ('f, 'c, 'cfg) PdfGeneratorOptions =
  schema :: "('f, 'c) ParsedFormSchema"
  config :: "'cfg option"
  basePath :: "string option"

record 'el GeneratedPdf =
  bytes :: "nat list"
  fieldCount :: nat
  pageCount :: nat
  drawnElements :: "'el list"

text \<open>
  The calls of \<open>generatePdf\<close> into modules outside this file, each with the arguments
  that \<open>generatePdf\<close> computes for it: \<open>parseStylesheet\<close> with the base path and the
  path of the stylesheet, \<open>createDocument\<close> for \<open>PDFDocument.create\<close> and the metadata
  setters, \<open>initializeLayout\<close> with the configuration and \<open>totalPages\<close>,
  \<open>drawHeader\<close> and \<open>drawFooter\<close> with \<open>startPage\<close>.
\<close>

datatype ('c, 'cfg) collaborator =
    parseStylesheet string string
  | getDefaultStylesheet
  | createDocument FormMetadata
  | initializeLayout "'cfg option" real
  | drawCoverPage FormMetadata CoverPage string
  | nextPage
  | drawHeader string real
  | drawFooter ResolvedFooter real
  | drawSchemaContent "'c list"
  | drawTitle string

text \<open>
  What a run depends on besides its arguments: the behaviour of the collaborators
  (\<open>external\<close>), of the field drawing functions (\<open>leafDraw\<close>) and of \<open>doc.save\<close>
  (\<open>docSave\<close>), each of which may throw, \<open>process.cwd()\<close> and the locale date.
\<close>

record ('page, 'el, 'r, 'f, 'c, 'cfg) environment =
  external :: "('c, 'cfg) collaborator \<Rightarrow> ('page, 'el, 'r) world \<Rightarrow> error + ('page, 'el, 'r) world"
  leafDraw :: "('page, 'f) leaf \<Rightarrow> ('page, 'el, 'r) world \<Rightarrow> error + ('page, 'el, 'r) world"
  docSave :: "('page, 'el, 'r) world \<Rightarrow> error + nat list"
  cwd :: string
  localeDate :: string

definition hasCoverPage :: "('f, 'c) ParsedFormSchema \<Rightarrow> bool" where
  "hasCoverPage sch = (coverPage sch \<noteq> None)"

definition pageOffset :: "('f, 'c) ParsedFormSchema \<Rightarrow> real" where
  "pageOffset sch = (if hasCoverPage sch then 1 else 0)"

definition generatePdf ::
  "('page, 'el, 'r, 'f, 'c, 'cfg) environment \<Rightarrow> ('f, 'c, 'cfg) PdfGeneratorOptions \<Rightarrow>
   ('page, 'el, 'r) world \<Rightarrow> error + ('el GeneratedPdf \<times> ('page, 'el, 'r) world)" where
  "generatePdf env options w0 =
     (let sch = schema options;
          base = (case basePath options of None \<Rightarrow> cwd env | Some b \<Rightarrow> b);
          totalPages =
            (let pageCount = (case FormMetadata.pages (form sch) of None \<Rightarrow> 1 | Some n \<Rightarrow> n)
             in if hasCoverPage sch then pageCount + 1 else pageCount);
          startPage = (if hasCoverPage sch then 1 else 0);
          resolvedFooter = resolveFooterConfig (localeDate env) (footer sch) (form sch);
          hasSchemaContentToDraw =
            (case content sch of None \<Rightarrow> False | Some cs \<Rightarrow> cs \<noteq> [])
      in
      and_then (if truthy (stylesheet (form sch))
                then external env (parseStylesheet base (orEmpty (stylesheet (form sch)))) w0
                else external env getDefaultStylesheet w0) (\<lambda>w1.
      and_then (external env (createDocument (form sch)) w1) (\<lambda>w2.
      and_then (external env (initializeLayout (config options) totalPages) w2) (\<lambda>w3.
      and_then (case coverPage sch of
                  None \<Rightarrow> Inr w3
                | Some cp \<Rightarrow>
                    and_then (external env (drawCoverPage (form sch) cp base) w3)
                      (external env nextPage)) (\<lambda>w4.
      and_then (external env (drawHeader (title (form sch)) startPage) w4) (\<lambda>w5.
      and_then (external env (drawFooter resolvedFooter startPage) w5) (\<lambda>w6.
      and_then (if hasSchemaContentToDraw
                then external env
                       (drawSchemaContent (case content sch of None \<Rightarrow> [] | Some cs \<Rightarrow> cs)) w6
                else external env (drawTitle (title (form sch))) w6) (\<lambda>w7.
      and_then (addFields (leafDraw env) hasSchemaContentToDraw (pageOffset sch)
                  (y (cursor w7)) (formFields sch) w7 0) (\<lambda>(w8, fieldCount).
      and_then (docSave env w8) (\<lambda>bytes.
        Inr (\<lparr> bytes = bytes, fieldCount = fieldCount,
                pageCount = length (world.pages w8),
                drawnElements = world.drawnElements w8 \<rparr>, w8)))))))))))"

section \<open>Example inputs\<close>

definition exampleForm :: FormMetadata where
  "exampleForm =
     \<lparr> title = ''Intake'', version = Some ''2.0'', author = None, pages = Some 2,
       stylesheet = None \<rparr>"

definition emptyFooterConfig :: FooterConfig where
  "emptyFooterConfig =
     \<lparr> FooterConfig.enabled = None, left = None, center = None, right = None, text = None,
       copyright = None, showPageNumbers = None, showVersion = None, showDate = None,
       separator = None, socialLinks = None \<rparr>"

definition exampleField :: "string \<Rightarrow> real \<Rightarrow> real \<Rightarrow> NormalizedFormField" where
  "exampleField t p offsetY = \<lparr> type = t, page = p, position = \<lparr> x = 72, y = offsetY \<rparr> \<rparr>"

definition exampleSchema :: "(unit, unit) ParsedFormSchema" where
  "exampleSchema =
     \<lparr> form = exampleForm, coverPage = None, footer = None, content = None,
       formFields = [exampleField ''text'' 1 (-50), exampleField ''barcode'' 99 10] \<rparr>"

definition exampleOptions :: "(unit, unit, unit) PdfGeneratorOptions" where
  "exampleOptions = \<lparr> schema = exampleSchema, config = None, basePath = None \<rparr>"

definition exampleWorld :: "(nat, unit, unit) world" where
  "exampleWorld =
     \<lparr> pages = [0, 1], cursor = \<lparr> x = 72, y = 700 \<rparr>, drawnElements = [], console = [],
       document = () \<rparr>"

text \<open>An environment in which every collaborator succeeds and changes nothing.\<close>

definition exampleEnvironment :: "(nat, unit, unit, unit, unit, unit) environment" where
  "exampleEnvironment =
     \<lparr> external = (\<lambda>c w. Inr w), leafDraw = (\<lambda>l w. Inr w), docSave = (\<lambda>w. Inr []),
       cwd = ''/work'', localeDate = ''11/3/2026'' \<rparr>"

text \<open>
  An environment whose field drawing functions always throw, and a schema whose
  fields all have unknown types.
\<close>

definition throwingEnvironment :: "(nat, unit, unit, unit, unit, unit) environment" where
  "throwingEnvironment =
     \<lparr> external = (\<lambda>c w. Inr w), leafDraw = (\<lambda>l w. Inl (Thrown ''draw'')),
       docSave = (\<lambda>w. Inr []), cwd = ''/work'', localeDate = ''11/3/2026'' \<rparr>"

definition unknownOnlyOptions :: "(unit, unit, unit) PdfGeneratorOptions" where
  "unknownOnlyOptions =
     \<lparr> schema = \<lparr> form = exampleForm, coverPage = None, footer = None, content = None,
                  formFields = [exampleField ''barcode'' 1 0, exampleField ''slider'' 2 0] \<rparr>,
       config = None, basePath = None \<rparr>"

definition emptyCoverPage :: CoverPage where
  "emptyCoverPage =
     \<lparr> coverImage = None, watermark = None, logo = None, subtitle = None,
       organization = None, department = None, documentNumber = None, documentType = None,
       status = None, classification = None, date = None, effectiveDate = None,
       reviewDate = None, preparedBy = None, reviewedBy = None, approvedBy = None,
       revisionHistory = None, copyright = None, disclaimer = None,
       distributionStatement = None \<rparr>"

text \<open>
  An environment whose field drawing functions record each call, with the page and the
  field it was given, in \<open>drawnElements\<close>; a document of three pages; and a schema with a
  cover page and a field on a page far beyond the last one.
\<close>

definition recordingEnvironment ::
  "(nat, (nat, unit) leaf, unit, unit, unit, unit) environment" where
  "recordingEnvironment =
     \<lparr> external = (\<lambda>c w. Inr w),
       leafDraw = (\<lambda>l w. Inr (w\<lparr> world.drawnElements := world.drawnElements w @ [l] \<rparr>)),
       docSave = (\<lambda>w. Inr []), cwd = ''/work'', localeDate = ''11/3/2026'' \<rparr>"

definition threePageWorld :: "(nat, (nat, unit) leaf, unit) world" where
  "threePageWorld =
     \<lparr> pages = [0, 1, 2], cursor = \<lparr> x = 72, y = 700 \<rparr>, drawnElements = [], console = [],
       document = () \<rparr>"

definition coverOptions :: "(unit, unit, unit) PdfGeneratorOptions" where
  "coverOptions =
     \<lparr> schema = \<lparr> form = exampleForm, coverPage = Some emptyCoverPage, footer = None,
                  content = None,
                  formFields = [exampleField ''text'' 1 (-50), exampleField ''checkbox'' 99 10] \<rparr>,
       config = None, basePath = None \<rparr>"

text \<open>Two inputs of the same shape: one with markup in its strings, one without.\<close>

definition hostileForm :: FormMetadata where
  "hostileForm =
     \<lparr> title = ''<script>alert(\"x\")</script> & more'', version = Some ''2.0'',
       author = Some (''O'' @ [CHR 0x27] @ ''Brien''), pages = None, stylesheet = None \<rparr>"

definition hostileCoverPage :: CoverPage where
  "hostileCoverPage =
     emptyCoverPage
       \<lparr> coverImage := Some (''a.png'' @ [CHR 0x27] @ '');x:url(b''),
         subtitle := Some ''<b>bold</b>'',
         revisionHistory :=
           Some [\<lparr> version = ''1'', date = ''2026-01-01'', author = ''A&B'',
                   description = ''x < y'' \<rparr>],
         copyright := Some ''\"quoted\"'' \<rparr>"

definition plainForm :: FormMetadata where
  "plainForm =
     \<lparr> title = ''Intake'', version = Some ''2.0'', author = Some ''Brien'', pages = None,
       stylesheet = None \<rparr>"

definition plainCoverPage :: CoverPage where
  "plainCoverPage =
     emptyCoverPage
       \<lparr> coverImage := Some ''a.png'',
         subtitle := Some ''bold'',
         revisionHistory :=
           Some [\<lparr> version = ''1'', date = ''2026-01-01'', author = ''A'',
                   description = ''first'' \<rparr>],
         copyright := Some ''quoted'' \<rparr>"

section \<open>Properties of text wrapping\<close>

subsection \<open>Splitting and joining\<close>

lemma js_split_nonempty: "js_split s \<noteq> []"
  by (induction s) (auto split: list.splits)

lemma js_split_space: "js_split (a @ CHR '' '' # b) = js_split a @ js_split b"
  by (induction a) (auto split: list.splits simp: js_split_nonempty)

lemma js_split_no_space: "w \<in> set (js_split s) \<Longrightarrow> CHR '' '' \<notin> set w"
  by (induction s arbitrary: w) (auto split: list.splits if_splits)

lemma js_split_word: "CHR '' '' \<notin> set w \<Longrightarrow> js_split w = [w]"
  by (induction w) (auto split: list.splits)

lemma js_join_split: "js_join '' '' (js_split s) = s"
proof (induction s)
  case Nil
  then show ?case by simp
next
  case (Cons c cs)
  obtain w ws where sp: "js_split cs = w # ws"
    using js_split_nonempty [of cs] by (cases "js_split cs") auto
  show ?case
  proof (cases "c = CHR '' ''")
    case True
    with Cons sp show ?thesis by simp
  next
    case False
    with Cons sp show ?thesis by (cases ws) auto
  qed
qed

lemma js_join_append:
  "xs \<noteq> [] \<Longrightarrow> ys \<noteq> [] \<Longrightarrow> js_join sep (xs @ ys) = js_join sep xs @ sep @ js_join sep ys"
  by (induction sep xs rule: js_join.induct) (auto simp: neq_Nil_conv)

lemma js_join_snoc_pair:
  "js_join '' '' (xs @ [a @ '' '' @ b]) = js_join '' '' (xs @ [a, b])"
  by (cases "xs = []") (simp_all add: js_join_append)

lemma wrap_step_unfold:
  "wrap_step mw fs (lines, cur) w =
     (if estimateTextWidth (if cur \<noteq> [] then cur @ '' '' @ w else w) fs > mw \<and> cur \<noteq> []
      then (lines @ [cur], w)
      else (lines, (if cur \<noteq> [] then cur @ '' '' @ w else w)))"
  unfolding wrap_step_def Let_def prod.case ..

lemma wrap_step_empty: "wrap_step mw fs (lines, []) w = (lines, w)"
  unfolding wrap_step_unfold by simp

lemma wrap_step_push:
  "cur \<noteq> [] \<Longrightarrow> estimateTextWidth (cur @ '' '' @ w) fs > mw \<Longrightarrow>
   wrap_step mw fs (lines, cur) w = (lines @ [cur], w)"
  unfolding wrap_step_unfold by simp

lemma wrap_step_extend:
  "cur \<noteq> [] \<Longrightarrow> \<not> estimateTextWidth (cur @ '' '' @ w) fs > mw \<Longrightarrow>
   wrap_step mw fs (lines, cur) w = (lines, cur @ '' '' @ w)"
  unfolding wrap_step_unfold by simp

lemma wrap_step_cases:
  obtains (empty) "cur = []" "wrap_step mw fs (lines, cur) w = (lines, w)"
  | (push) "cur \<noteq> []" "estimateTextWidth (cur @ '' '' @ w) fs > mw"
      "wrap_step mw fs (lines, cur) w = (lines @ [cur], w)"
  | (extend) "cur \<noteq> []" "estimateTextWidth (cur @ '' '' @ w) fs \<le> mw"
      "wrap_step mw fs (lines, cur) w = (lines, cur @ '' '' @ w)"
proof (cases "cur = []")
  case True
  then show ?thesis using empty wrap_step_empty by simp
next
  case ne: False
  show ?thesis
  proof (cases "estimateTextWidth (cur @ '' '' @ w) fs > mw")
    case True
    then show ?thesis using push ne wrap_step_push by simp
  next
    case False
    then show ?thesis using extend ne wrap_step_extend by (simp add: not_less)
  qed
qed

lemma wrap_step_join:
  assumes "w \<noteq> []" and "cur \<noteq> [] \<or> lines = []"
  shows "js_join '' '' (wrap_finish (wrap_step mw fs (lines, cur) w))
           = js_join '' '' (wrap_finish (lines, cur) @ [w])"
    and "snd (wrap_step mw fs (lines, cur) w) \<noteq> []"
proof -
  show "snd (wrap_step mw fs (lines, cur) w) \<noteq> []"
    using assms(1) by (cases rule: wrap_step_cases [of cur mw fs lines w]) simp_all
  show "js_join '' '' (wrap_finish (wrap_step mw fs (lines, cur) w))
           = js_join '' '' (wrap_finish (lines, cur) @ [w])"
  proof (cases rule: wrap_step_cases [of cur mw fs lines w])
    case empty
    with assms show ?thesis by (simp add: wrap_finish_def)
  next
    case push
    with assms(1) show ?thesis by (simp add: wrap_finish_def)
  next
    case extend
    have "wrap_finish (wrap_step mw fs (lines, cur) w) = lines @ [cur @ '' '' @ w]"
      using extend by (simp add: wrap_finish_def)
    moreover have "wrap_finish (lines, cur) @ [w] = lines @ [cur, w]"
      using extend by (simp add: wrap_finish_def)
    ultimately show ?thesis by (simp only: js_join_snoc_pair)
  qed
qed

lemma js_join_cong_append:
  assumes "js_join sep xs = js_join sep ys" and "xs \<noteq> []" and "ys \<noteq> []"
  shows "js_join sep (xs @ zs) = js_join sep (ys @ zs)"
  using assms by (cases "zs = []") (simp_all add: js_join_append)

lemma wrap_finish_nonempty: "snd st \<noteq> [] \<Longrightarrow> wrap_finish st \<noteq> []"
  by (cases st) (simp add: wrap_finish_def)

lemma wrap_fold_join:
  "\<forall>w \<in> set ws. w \<noteq> [] \<Longrightarrow> snd st \<noteq> [] \<or> fst st = [] \<Longrightarrow>
   js_join '' '' (wrap_finish (foldl (wrap_step mw fs) st ws))
     = js_join '' '' (wrap_finish st @ ws)"
proof (induction ws arbitrary: st)
  case Nil
  then show ?case by simp
next
  case (Cons w ws)
  obtain lines cur where st: "st = (lines, cur)" by (cases st)
  let ?st' = "wrap_step mw fs st w"
  from Cons.prems have w: "w \<noteq> []" and inv: "cur \<noteq> [] \<or> lines = []"
    by (simp_all add: st)
  have one: "js_join '' '' (wrap_finish ?st') = js_join '' '' (wrap_finish st @ [w])"
    and cur': "snd ?st' \<noteq> []"
    using wrap_step_join [OF w inv] by (simp_all add: st)
  have "js_join '' '' (wrap_finish (foldl (wrap_step mw fs) ?st' ws))
          = js_join '' '' (wrap_finish ?st' @ ws)"
    using Cons.IH [of ?st'] Cons.prems(1) cur' by simp
  also have "\<dots> = js_join '' '' ((wrap_finish st @ [w]) @ ws)"
    by (rule js_join_cong_append [OF one]) (simp_all add: wrap_finish_nonempty cur')
  finally show ?case by simp
qed

lemma wrapText_join_text:
  assumes "str = [] \<or> [] \<notin> set (js_split str)"
  shows "js_join '' '' (wrapText str mw fs) = str"
proof (cases "str = []")
  case True
  then show ?thesis by (simp add: wrapText_def wrap_step_def wrap_finish_def)
next
  case False
  with assms have "\<forall>w \<in> set (js_split str). w \<noteq> []" by auto
  then have "js_join '' '' (wrapText str mw fs) = js_join '' '' (wrap_finish ([], []) @ js_split str)"
    unfolding wrapText_def by (rule wrap_fold_join) simp
  then show ?thesis by (simp add: wrap_finish_def js_join_split)
qed

lemma wrap_step_fits:
  assumes "\<forall>l \<in> set lines. P l" and "cur = [] \<or> P cur" and "P w"
    and "\<And>l. estimateTextWidth l fs \<le> mw \<Longrightarrow> P l"
  shows "(\<forall>l \<in> set (fst (wrap_step mw fs (lines, cur) w)). P l)
       \<and> (snd (wrap_step mw fs (lines, cur) w) = [] \<or> P (snd (wrap_step mw fs (lines, cur) w)))"
  using assms by (cases rule: wrap_step_cases [of cur mw fs lines w]) auto

lemma wrap_fold_fits:
  assumes fits: "\<And>l. estimateTextWidth l fs \<le> mw \<Longrightarrow> P l"
  shows "\<forall>w \<in> set ws. P w \<Longrightarrow> \<forall>l \<in> set (fst st). P l \<Longrightarrow> snd st = [] \<or> P (snd st) \<Longrightarrow>
     \<forall>l \<in> set (wrap_finish (foldl (wrap_step mw fs) st ws)). P l"
proof (induction ws arbitrary: st)
  case Nil
  then show ?case by (cases st) (auto simp: wrap_finish_def)
next
  case (Cons w ws)
  obtain lines cur where st: "st = (lines, cur)" by (cases st)
  from Cons.prems have "\<forall>l \<in> set lines. P l" "cur = [] \<or> P cur" "P w"
    by (simp_all add: st)
  from wrap_step_fits [OF this fits]
  have "(\<forall>l \<in> set (fst (wrap_step mw fs st w)). P l)
       \<and> (snd (wrap_step mw fs st w) = [] \<or> P (snd (wrap_step mw fs st w)))"
    by (simp add: st)
  with Cons.IH [of "wrap_step mw fs st w"] Cons.prems(1) show ?case by simp
qed

lemma wrapText_line_widths:
  "\<forall>line \<in> set (wrapText str mw fs).
     estimateTextWidth line fs \<le> mw
     \<or> (line \<in> set (js_split str) \<and> CHR '' '' \<notin> set line \<and> estimateTextWidth line fs > mw)"
proof -
  let ?P = "\<lambda>l. estimateTextWidth l fs \<le> mw \<or> l \<in> set (js_split str)"
  have "\<forall>l \<in> set (wrap_finish (foldl (wrap_step mw fs) ([], []) (js_split str))). ?P l"
    by (rule wrap_fold_fits) simp_all
  then show ?thesis
    unfolding wrapText_def by (auto simp: not_le dest: js_split_no_space)
qed

lemma nonEmptyWords_space: "nonEmptyWords (a @ CHR '' '' # b) = nonEmptyWords a @ nonEmptyWords b"
  by (simp add: nonEmptyWords_def js_split_space)

lemma nonEmptyWords_word: "CHR '' '' \<notin> set w \<Longrightarrow> nonEmptyWords w = (if w = [] then [] else [w])"
  by (simp add: nonEmptyWords_def js_split_word)

lemma nonEmptyWords_join:
  "nonEmptyWords (js_join '' '' xs) = concat (map nonEmptyWords xs)"
  by (induction "'' ''" xs rule: js_join.induct) (simp_all add: nonEmptyWords_space, simp add: nonEmptyWords_def)

lemma wrap_step_words:
  assumes "CHR '' '' \<notin> set w"
  shows "concat (map nonEmptyWords (wrap_finish (wrap_step mw fs st w)))
           = concat (map nonEmptyWords (wrap_finish st)) @ (if w = [] then [] else [w])"
proof -
  obtain lines cur where st: "st = (lines, cur)" by (cases st)
  show ?thesis
    unfolding st using assms
    by (cases rule: wrap_step_cases [of cur mw fs lines w])
       (simp_all add: wrap_finish_def nonEmptyWords_space nonEmptyWords_word)
qed

lemma wrap_fold_words:
  "\<forall>w \<in> set ws. CHR '' '' \<notin> set w \<Longrightarrow>
   concat (map nonEmptyWords (wrap_finish (foldl (wrap_step mw fs) st ws)))
     = concat (map nonEmptyWords (wrap_finish st)) @ filter (\<lambda>w. w \<noteq> []) ws"
proof (induction ws arbitrary: st)
  case Nil
  then show ?case by simp
next
  case (Cons w ws)
  then show ?case by (simp add: wrap_step_words)
qed

lemma wrapText_same_words: "nonEmptyWords (js_join '' '' (wrapText str mw fs)) = nonEmptyWords str"
proof -
  have "\<forall>w \<in> set (js_split str). CHR '' '' \<notin> set w"
    by (auto dest: js_split_no_space)
  from wrap_fold_words [OF this, of mw fs "([], [])"]
  show ?thesis
    by (simp add: nonEmptyWords_join wrapText_def wrap_finish_def) (simp add: nonEmptyWords_def)
qed

subsection \<open>The claims about \<open>wrapText\<close>\<close>

text \<open>
  Claim C4, as the code has it.  Joining the lines of \<open>wrapText\<close> with single spaces
  gives back the text itself when the text has no leading, trailing or doubled space
  (none of its space-delimited words is empty); for every text, the joined lines and
  the text have the same non-empty space-delimited words in the same order; and every
  line either has an estimated width of at most \<open>maxWidth\<close> or is a single word of the
  text (it contains no space) whose own estimated width exceeds \<open>maxWidth\<close>.
\<close>

theorem wrapText_lines:
  "(str = [] \<or> [] \<notin> set (js_split str) \<longrightarrow>
      js_join '' '' (wrapText str maxWidth fontSize) = str)
   \<and> nonEmptyWords (js_join '' '' (wrapText str maxWidth fontSize)) = nonEmptyWords str
   \<and> (\<forall>line \<in> set (wrapText str maxWidth fontSize).
         estimateTextWidth line fontSize \<le> maxWidth
         \<or> (line \<in> set (js_split str) \<and> CHR '' '' \<notin> set line
            \<and> estimateTextWidth line fontSize > maxWidth))"
  using wrapText_join_text [of str maxWidth fontSize]
    wrapText_same_words [of str maxWidth fontSize]
    wrapText_line_widths [of str maxWidth fontSize]
  by blast

theorem wrapText_lines_witness:
  "[] \<notin> set (js_split ''Supercalifragilistic is a long word'')
   \<and> js_join '' '' (wrapText ''Supercalifragilistic is a long word'' 60 12)
       = ''Supercalifragilistic is a long word''
   \<and> wrapText ''Supercalifragilistic is a long word'' 60 12
       = [''Supercalifragilistic'', ''is a long'', ''word'']
   \<and> estimateTextWidth ''Supercalifragilistic'' 12 > 60
   \<and> estimateTextWidth ''is a long'' 12 \<le> 60"
proof -
  have words: "[] \<notin> set (js_split ''Supercalifragilistic is a long word'')"
    by simp
  have lines: "wrapText ''Supercalifragilistic is a long word'' 60 12
       = [''Supercalifragilistic'', ''is a long'', ''word'']"
    by (simp add: wrapText_def wrap_step_def wrap_finish_def estimateTextWidth_def)
  from wrapText_lines [of "''Supercalifragilistic is a long word''" 60 12] words
  have "js_join '' '' (wrapText ''Supercalifragilistic is a long word'' 60 12)
       = ''Supercalifragilistic is a long word''"
    by blast
  with words lines show ?thesis
    by (simp add: estimateTextWidth_def)
qed

text \<open>
  The claim as the specification states it fails on a text with a doubled space:
  on a wide line the doubled space is kept, so the joined lines are not the
  whitespace-normalised text, and on a narrow line it is dropped, so the joined lines
  are not a function of the text alone.
\<close>

theorem wrapText_keeps_doubled_space:
  "js_join '' '' (wrapText ''a  b'' 100 12) \<noteq> whitespaceNormalized ''a  b''
   \<and> js_join '' '' (wrapText ''a  b'' 100 12) \<noteq> js_join '' '' (wrapText ''a  b'' 1 2)"
  by (simp add: wrapText_def wrap_step_def wrap_finish_def estimateTextWidth_def
        whitespaceNormalized_def isWhitespace_def)

text \<open>
  Claim C5.  For every maximal width and every font size, wrapping the empty string
  gives the empty sequence of lines, not a sequence holding one empty line.
\<close>

theorem wrapText_empty: "wrapText [] maxWidth fontSize = []"
  by (simp add: wrapText_def wrap_step_def wrap_finish_def)

section \<open>Properties of footer resolution\<close>

lemma socialLinkCount_zero: "socialLinkCount links = 0 \<longleftrightarrow> links = noSocialLinks"
  by (cases links) (auto simp: socialLinkCount_def noSocialLinks_def split: if_splits)

lemma replace_from_absent: "\<not> occurs pat s \<Longrightarrow> replace_from pat rep pre s = s"
  by (induction s arbitrary: pre) auto

lemma resolveStaticVariables_dateFree:
  "\<not> occurs ''{{date}}'' (resolveFormVariables s fm) \<Longrightarrow>
   resolveStaticVariables d s fm = (if s = [] then s else resolveFormVariables s fm)"
  by (simp add: resolveStaticVariables_def replaceAll_def replace_from_absent)

lemma socialLinkCount_pos: "(0 < socialLinkCount links) = (links \<noteq> noSocialLinks)"
  using socialLinkCount_zero [of links] by auto

lemma resolveFooterConfig_disabled_iff:
  "(\<not> ResolvedFooter.enabled (resolveFooterConfig d cfg fm)) =
      ((ResolvedFooter.left (resolveFooterConfig d cfg fm) = []
        \<and> ResolvedFooter.center (resolveFooterConfig d cfg fm) = []
        \<and> ResolvedFooter.right (resolveFooterConfig d cfg fm) = []
        \<and> ResolvedFooter.socialLinks (resolveFooterConfig d cfg fm) = noSocialLinks)
       \<or> (\<exists>f. cfg = Some f \<and> FooterConfig.enabled f = Some False))"
  by (auto simp: resolveFooterConfig_def truthy_def socialLinkCount_zero Let_def
           split: option.splits prod.splits)

lemma resolveFooterConfig_enabled_iff:
  "(\<exists>f. cfg = Some f \<and> FooterConfig.enabled f = Some False)
   \<or> ResolvedFooter.enabled (resolveFooterConfig d cfg fm) =
       (ResolvedFooter.left (resolveFooterConfig d cfg fm) \<noteq> []
        \<or> ResolvedFooter.center (resolveFooterConfig d cfg fm) \<noteq> []
        \<or> ResolvedFooter.right (resolveFooterConfig d cfg fm) \<noteq> []
        \<or> socialLinkCount (ResolvedFooter.socialLinks (resolveFooterConfig d cfg fm)) > 0)"
proof (cases cfg)
  case None
  then show ?thesis
    by (simp add: resolveFooterConfig_def truthy_def socialLinkCount_pos split: option.splits)
next
  case (Some f)
  show ?thesis
  proof (cases "FooterConfig.enabled f = Some False")
    case True
    with Some show ?thesis by simp
  next
    case False
    obtain l c r where slots: "footerSlots f fm = (l, c, r)"
      by (cases "footerSlots f fm") auto
    from Some False slots show ?thesis
      by (simp add: resolveFooterConfig_def Let_def)
  qed
qed

text \<open>
  Claim C3.  The resolved footer is disabled exactly when its three slots are empty
  and it has no social link, or the configuration says \<open>enabled: false\<close>; and unless
  the configuration says \<open>enabled: false\<close>, it is enabled exactly when a slot is not
  empty or a social link is left after filtering.
\<close>

theorem resolveFooterConfig_enabled:
  "((\<not> ResolvedFooter.enabled (resolveFooterConfig d cfg fm)) =
      ((ResolvedFooter.left (resolveFooterConfig d cfg fm) = []
        \<and> ResolvedFooter.center (resolveFooterConfig d cfg fm) = []
        \<and> ResolvedFooter.right (resolveFooterConfig d cfg fm) = []
        \<and> ResolvedFooter.socialLinks (resolveFooterConfig d cfg fm) = noSocialLinks)
       \<or> (\<exists>f. cfg = Some f \<and> FooterConfig.enabled f = Some False)))
   \<and> ((\<exists>f. cfg = Some f \<and> FooterConfig.enabled f = Some False)
       \<or> ResolvedFooter.enabled (resolveFooterConfig d cfg fm) =
           (ResolvedFooter.left (resolveFooterConfig d cfg fm) \<noteq> []
            \<or> ResolvedFooter.center (resolveFooterConfig d cfg fm) \<noteq> []
            \<or> ResolvedFooter.right (resolveFooterConfig d cfg fm) \<noteq> []
            \<or> socialLinkCount (ResolvedFooter.socialLinks (resolveFooterConfig d cfg fm)) > 0))"
  using resolveFooterConfig_disabled_iff [of d cfg fm] resolveFooterConfig_enabled_iff [of cfg d fm]
  by (rule conjI)

theorem resolveFooterConfig_enabled_witness:
  "ResolvedFooter.left (resolveFooterConfig ''11/3/2026'' (Some emptyFooterConfig) exampleForm) = []
   \<and> ResolvedFooter.center (resolveFooterConfig ''11/3/2026'' (Some emptyFooterConfig) exampleForm) = []
   \<and> ResolvedFooter.right (resolveFooterConfig ''11/3/2026'' (Some emptyFooterConfig) exampleForm) = []
   \<and> ResolvedFooter.socialLinks (resolveFooterConfig ''11/3/2026'' (Some emptyFooterConfig) exampleForm)
       = noSocialLinks
   \<and> \<not> ResolvedFooter.enabled (resolveFooterConfig ''11/3/2026'' (Some emptyFooterConfig) exampleForm)"
proof -
  have slots:
    "ResolvedFooter.left (resolveFooterConfig ''11/3/2026'' (Some emptyFooterConfig) exampleForm) = []
     \<and> ResolvedFooter.center (resolveFooterConfig ''11/3/2026'' (Some emptyFooterConfig) exampleForm) = []
     \<and> ResolvedFooter.right (resolveFooterConfig ''11/3/2026'' (Some emptyFooterConfig) exampleForm) = []
     \<and> ResolvedFooter.socialLinks (resolveFooterConfig ''11/3/2026'' (Some emptyFooterConfig) exampleForm)
         = noSocialLinks"
    by code_simp
  with resolveFooterConfig_enabled [of "''11/3/2026''" "Some emptyFooterConfig" exampleForm]
  show ?thesis by blast
qed

text \<open>
  Claim C6.  Without a footer configuration the footer is enabled exactly when the
  form has a version string, that is a version that is present and not empty (the
  truthiness test of the source); the centre slot is \<open>Version\<close> followed by that
  version, or empty without one; the left and right slots are empty.  In particular a
  form of version \<open>2.0\<close> gives an enabled footer with the centre \<open>Version 2.0\<close>.
\<close>

theorem resolveFooterConfig_legacy:
  "ResolvedFooter.enabled (resolveFooterConfig d None fm)
     = (\<exists>v. FormMetadata.version fm = Some v \<and> v \<noteq> [])
   \<and> ResolvedFooter.center (resolveFooterConfig d None fm)
       = (case FormMetadata.version fm of
            None \<Rightarrow> [] | Some v \<Rightarrow> if v = [] then [] else ''Version '' @ v)
   \<and> ResolvedFooter.left (resolveFooterConfig d None fm) = []
   \<and> ResolvedFooter.right (resolveFooterConfig d None fm) = []
   \<and> (FormMetadata.version fm = Some ''2.0'' \<longrightarrow>
        ResolvedFooter.enabled (resolveFooterConfig d None fm)
        \<and> ResolvedFooter.center (resolveFooterConfig d None fm) = ''Version 2.0'')"
  by (auto simp: resolveFooterConfig_def truthy_def orEmpty_def split: option.splits)

theorem resolveFooterConfig_legacy_witness:
  "FormMetadata.version exampleForm = Some ''2.0''
   \<and> ResolvedFooter.enabled (resolveFooterConfig ''11/3/2026'' None exampleForm)
   \<and> ResolvedFooter.center (resolveFooterConfig ''11/3/2026'' None exampleForm) = ''Version 2.0''
   \<and> ResolvedFooter.left (resolveFooterConfig ''11/3/2026'' None exampleForm) = []
   \<and> ResolvedFooter.right (resolveFooterConfig ''11/3/2026'' None exampleForm) = []"
proof -
  have v: "FormMetadata.version exampleForm = Some ''2.0''"
    by (simp add: exampleForm_def)
  with resolveFooterConfig_legacy [of "''11/3/2026''" exampleForm]
  show ?thesis by blast
qed

text \<open>
  Claim C7, as the code has it.  \<open>resolveStaticVariables\<close> replaces \<open>{{date}}\<close> by the
  locale date of the moment of the call, so the result depends on the clock.  Two
  runs on the same footer configuration and form give the same resolved footer, whatever the
  dates of the two runs, when no \<open>{{date}}\<close> token is resolved: the configuration is
  absent or explicitly disabled, or no slot holds the token after the form variables
  have been substituted.
\<close>

theorem resolveFooterConfig_date_independent:
  "dateFree cfg fm \<Longrightarrow> resolveFooterConfig d1 cfg fm = resolveFooterConfig d2 cfg fm"
  by (auto simp: dateFree_def resolveFooterConfig_def resolveStaticVariables_dateFree Let_def
           split: option.splits prod.splits)

theorem resolveFooterConfig_date_independent_witness:
  "dateFree
     (Some (emptyFooterConfig\<lparr> FooterConfig.text := Some ''{{title}} v{{version}}'',
                                showPageNumbers := Some True \<rparr>)) exampleForm
   \<and> resolveFooterConfig ''11/3/2026''
       (Some (emptyFooterConfig\<lparr> FooterConfig.text := Some ''{{title}} v{{version}}'',
                                  showPageNumbers := Some True \<rparr>)) exampleForm
     = resolveFooterConfig ''11/4/2026''
         (Some (emptyFooterConfig\<lparr> FooterConfig.text := Some ''{{title}} v{{version}}'',
                                    showPageNumbers := Some True \<rparr>)) exampleForm"
proof -
  have h: "dateFree
     (Some (emptyFooterConfig\<lparr> FooterConfig.text := Some ''{{title}} v{{version}}'',
                                showPageNumbers := Some True \<rparr>)) exampleForm"
    by code_simp
  show ?thesis
    using h resolveFooterConfig_date_independent [OF h] by simp
qed

text \<open>
  The claim as the specification states it fails as soon as a date is shown: the same
  configuration and form resolved on two different days give two different footers.
\<close>

theorem resolveFooterConfig_depends_on_date:
  "resolveFooterConfig ''11/3/2026'' (Some (emptyFooterConfig\<lparr> showDate := Some True \<rparr>))
     exampleForm
   \<noteq> resolveFooterConfig ''11/4/2026'' (Some (emptyFooterConfig\<lparr> showDate := Some True \<rparr>))
       exampleForm"
  by code_simp

section \<open>Properties of field placement\<close>

text \<open>
  Claim C1.  A field of logical page 1 is placed at the content baseline plus its
  \<open>position.y\<close>, and nothing else of it changes; a field of any other page is returned
  as it is.  With the baseline 700, a field of page 1 at \<open>y = -50\<close> is placed at 650.
\<close>

theorem adjustFieldPosition_baseline:
  "(page f = 1 \<longrightarrow>
      y (position (adjustFieldPosition f baseline)) = baseline + y (position f)
      \<and> adjustFieldPosition f baseline
          = f\<lparr> position := (position f)\<lparr> y := baseline + y (position f) \<rparr> \<rparr>)
   \<and> (page f \<noteq> 1 \<longrightarrow> adjustFieldPosition f baseline = f)"
  by (simp add: adjustFieldPosition_def)

theorem adjustFieldPosition_baseline_witness:
  "page (exampleField ''text'' 1 (-50)) = 1
   \<and> y (position (adjustFieldPosition (exampleField ''text'' 1 (-50)) 700)) = 650
   \<and> page (exampleField ''text'' 2 (-50)) \<noteq> 1
   \<and> adjustFieldPosition (exampleField ''text'' 2 (-50)) 700 = exampleField ''text'' 2 (-50)"
  using adjustFieldPosition_baseline [of "exampleField ''text'' 1 (-50)" 700]
    adjustFieldPosition_baseline [of "exampleField ''text'' 2 (-50)" 700]
  by (simp add: exampleField_def)

lemma js_index_last: "ps \<noteq> [] \<Longrightarrow> js_index ps (real (length ps) - 1) = Some (last ps)"
proof -
  assume ne: "ps \<noteq> []"
  then have eq: "real (length ps) - 1 = real (length ps - 1)"
    by (cases ps) simp_all
  show ?thesis
    unfolding eq js_index_def using ne by (simp add: last_conv_nth)
qed

lemma pageIndex_clamp:
  "real n - 1 \<le> p - 1 + off \<Longrightarrow> pageIndex p off n = real n - 1"
  by (simp add: pageIndex_def min_def)

lemma js_index_nat: "k < length ps \<Longrightarrow> js_index ps (real k) = Some (ps ! k)"
  by (simp add: js_index_def)

lemma pageIndex_in_range:
  "p - 1 + off = real k \<Longrightarrow> k < n \<Longrightarrow> pageIndex p off n = real k"
  by (simp add: pageIndex_def min_def)

section \<open>Properties of the field loop\<close>

lemma adjustFieldPosition_type: "type (adjustFieldPosition f baseline) = type f"
  by (simp add: adjustFieldPosition_def)

lemma addFieldToDocument_unknown:
  "type f \<notin> set knownFieldTypes \<Longrightarrow>
   addFieldToDocument dr w f skip off
     = Inr (w\<lparr> console := console w @ [''Unknown field type: '' @ type f] \<rparr>)"
  by (simp add: addFieldToDocument_def knownFieldTypes_def Let_def)

lemma addFields_count:
  "addFields dr skip off b fs w n = Inr (w', m) \<Longrightarrow> m = n + length fs"
proof (induction fs arbitrary: w n)
  case Nil
  then show ?case by simp
next
  case (Cons f fs)
  from Cons.prems obtain w1 where
    step: "addFieldToDocument dr w (adjustFieldPosition f b) skip off = Inr w1"
    and run: "addFields dr skip off b fs w1 (n + 1) = Inr (w', m)"
    by (auto split: sum.splits)
  from Cons.IH [OF run] show ?case by simp
qed

lemma addFields_append:
  "addFields dr skip off b (fs1 @ fs2) w n =
     (case addFields dr skip off b fs1 w n of
        Inl e \<Rightarrow> Inl e
      | Inr (w1, n1) \<Rightarrow> addFields dr skip off b fs2 w1 n1)"
  by (induction fs1 arbitrary: w n) (auto split: sum.splits)

lemma addFields_all_unknown:
  "\<forall>f \<in> set fs. type f \<notin> set knownFieldTypes \<Longrightarrow>
   addFields dr skip off b fs w n
     = Inr (w\<lparr> console := console w @ map (\<lambda>f. ''Unknown field type: '' @ type f) fs \<rparr>,
            n + length fs)"
  by (induction fs arbitrary: w n)
     (simp_all add: addFieldToDocument_unknown adjustFieldPosition_type)

lemma and_then_InrE:
  assumes "and_then m k = Inr r"
  obtains v where "m = Inr v" and "k v = Inr r"
  using assms by (cases m) (auto simp: and_then_def)

lemma generatePdf_unknown_only:
  assumes "\<forall>g \<in> set (formFields (schema options)). type g \<notin> set knownFieldTypes"
    and "external env' = external env" and "docSave env' = docSave env"
    and "cwd env' = cwd env" and "localeDate env' = localeDate env"
  shows "generatePdf env' options w0 = generatePdf env options w0"
  unfolding generatePdf_def Let_def addFields_all_unknown [OF assms(1)] assms(2-5) ..

text \<open>
  Claim C8.  A field whose type is none of the six known types makes
  \<open>addFieldToDocument\<close> write one warning and return normally, with nothing else
  changed and no drawing function called.  The loop over the fields goes on with the
  remaining fields from the state with that warning, and the field is counted; a loop
  over fields that are all of unknown types cannot fail, and the result of
  \<open>generatePdf\<close> on a schema of such fields does not depend on the drawing functions
  at all.
\<close>

theorem unknown_field_type_skipped:
  "type f \<notin> set knownFieldTypes \<Longrightarrow>
     addFieldToDocument dr w f skip off
       = Inr (w\<lparr> console := console w @ [''Unknown field type: '' @ type f] \<rparr>)
     \<and> addFields dr skip off b (fs1 @ f # fs2) w n =
         (case addFields dr skip off b fs1 w n of
            Inl e \<Rightarrow> Inl e
          | Inr (w1, n1) \<Rightarrow>
              addFields dr skip off b fs2
                (w1\<lparr> console := console w1 @ [''Unknown field type: '' @ type f] \<rparr>) (n1 + 1))
     \<and> ((\<forall>g \<in> set fs2. type g \<notin> set knownFieldTypes) \<longrightarrow>
          addFields dr skip off b (f # fs2) w n
            = Inr (w\<lparr> console := console w
                        @ map (\<lambda>g. ''Unknown field type: '' @ type g) (f # fs2) \<rparr>,
                   n + length (f # fs2)))
     \<and> ((\<forall>g \<in> set (formFields (schema options)). type g \<notin> set knownFieldTypes)
          \<and> external env' = external env \<and> docSave env' = docSave env
          \<and> cwd env' = cwd env \<and> localeDate env' = localeDate env \<longrightarrow>
          generatePdf env' options w0 = generatePdf env options w0)"
proof (intro conjI impI)
  assume unknown: "type f \<notin> set knownFieldTypes"
  show "addFieldToDocument dr w f skip off
       = Inr (w\<lparr> console := console w @ [''Unknown field type: '' @ type f] \<rparr>)"
    using unknown by (rule addFieldToDocument_unknown)
  show "addFields dr skip off b (fs1 @ f # fs2) w n =
         (case addFields dr skip off b fs1 w n of
            Inl e \<Rightarrow> Inl e
          | Inr (w1, n1) \<Rightarrow>
              addFields dr skip off b fs2
                (w1\<lparr> console := console w1 @ [''Unknown field type: '' @ type f] \<rparr>) (n1 + 1))"
    using unknown
    by (auto simp: addFields_append addFieldToDocument_unknown adjustFieldPosition_type
          split: sum.splits)
  {
    assume "\<forall>g \<in> set fs2. type g \<notin> set knownFieldTypes"
    with unknown have "\<forall>g \<in> set (f # fs2). type g \<notin> set knownFieldTypes"
      by simp
    then show "addFields dr skip off b (f # fs2) w n
            = Inr (w\<lparr> console := console w
                        @ map (\<lambda>g. ''Unknown field type: '' @ type g) (f # fs2) \<rparr>,
                   n + length (f # fs2))"
      by (rule addFields_all_unknown)
  }
  {
    assume "(\<forall>g \<in> set (formFields (schema options)). type g \<notin> set knownFieldTypes)
          \<and> external env' = external env \<and> docSave env' = docSave env
          \<and> cwd env' = cwd env \<and> localeDate env' = localeDate env"
    then show "generatePdf env' options w0 = generatePdf env options w0"
      by (intro generatePdf_unknown_only) simp_all
  }
qed

theorem unknown_field_type_skipped_witness:
  "type (exampleField ''barcode'' 99 10) \<notin> set knownFieldTypes
   \<and> addFieldToDocument (leafDraw exampleEnvironment) exampleWorld
         (exampleField ''barcode'' 99 10) False 0
       = Inr (exampleWorld\<lparr> console := [''Unknown field type: barcode''] \<rparr>)
   \<and> addFields (leafDraw exampleEnvironment) False 0 700
         ([exampleField ''text'' 1 (-50)] @ exampleField ''barcode'' 99 10
            # [exampleField ''checkbox'' 2 300]) exampleWorld 0
       = Inr (exampleWorld\<lparr> console := [''Unknown field type: barcode''] \<rparr>, 3)
   \<and> generatePdf throwingEnvironment unknownOnlyOptions exampleWorld
       = generatePdf exampleEnvironment unknownOnlyOptions exampleWorld"
proof -
  let ?warned =
    "exampleWorld\<lparr> console := console exampleWorld
        @ [''Unknown field type: '' @ type (exampleField ''barcode'' 99 10)] \<rparr>"
  have unknown: "type (exampleField ''barcode'' 99 10) \<notin> set knownFieldTypes"
    by (simp add: exampleField_def knownFieldTypes_def)
  have warned: "?warned = exampleWorld\<lparr> console := [''Unknown field type: barcode''] \<rparr>"
    by (simp add: exampleWorld_def exampleField_def)
  have before: "addFields (leafDraw exampleEnvironment) False 0 700
         [exampleField ''text'' 1 (-50)] exampleWorld 0 = Inr (exampleWorld, 1)"
    by (simp add: addFieldToDocument_def adjustFieldPosition_def exampleField_def
          exampleEnvironment_def and_then_def Let_def)
  have after: "addFields (leafDraw exampleEnvironment) False 0 700
         [exampleField ''checkbox'' 2 300] ?warned (1 + 1) = Inr (?warned, 3)"
    by (simp add: addFieldToDocument_def adjustFieldPosition_def exampleField_def
          exampleEnvironment_def and_then_def Let_def)
  note skipped = unknown_field_type_skipped [OF unknown,
      of "leafDraw exampleEnvironment" exampleWorld False 0 700
         "[exampleField ''text'' 1 (-50)]" "[exampleField ''checkbox'' 2 300]" 0]
  have one: "addFieldToDocument (leafDraw exampleEnvironment) exampleWorld
         (exampleField ''barcode'' 99 10) False 0 = Inr ?warned"
    using skipped by (rule conjunct1)
  have "addFields (leafDraw exampleEnvironment) False 0 700
         ([exampleField ''text'' 1 (-50)] @ exampleField ''barcode'' 99 10
            # [exampleField ''checkbox'' 2 300]) exampleWorld 0
       = addFields (leafDraw exampleEnvironment) False 0 700
           [exampleField ''checkbox'' 2 300] ?warned (1 + 1)"
    using skipped [THEN conjunct2, THEN conjunct1]
    by (simp only: before sum.case prod.case)
  then have run: "addFields (leafDraw exampleEnvironment) False 0 700
         ([exampleField ''text'' 1 (-50)] @ exampleField ''barcode'' 99 10
            # [exampleField ''checkbox'' 2 300]) exampleWorld 0
       = Inr (?warned, 3)"
    by (simp only: after)
  have all_unknown:
    "(\<forall>g \<in> set (formFields (schema unknownOnlyOptions)). type g \<notin> set knownFieldTypes)
     \<and> external throwingEnvironment = external exampleEnvironment
     \<and> docSave throwingEnvironment = docSave exampleEnvironment
     \<and> cwd throwingEnvironment = cwd exampleEnvironment
     \<and> localeDate throwingEnvironment = localeDate exampleEnvironment"
    by (simp add: unknownOnlyOptions_def exampleField_def knownFieldTypes_def
          throwingEnvironment_def exampleEnvironment_def)
  have same: "generatePdf throwingEnvironment unknownOnlyOptions exampleWorld
       = generatePdf exampleEnvironment unknownOnlyOptions exampleWorld"
    using unknown_field_type_skipped [OF unknown, THEN conjunct2, THEN conjunct2,
        THEN conjunct2, of unknownOnlyOptions throwingEnvironment exampleEnvironment
        exampleWorld] all_unknown
    by blast
  from unknown one run same show ?thesis
    by (simp only: warned simp_thms)
qed

lemma and_then_total:
  assumes "\<exists>v. m = Inr v" and "\<And>v. \<exists>r. k v = Inr r"
  shows "\<exists>r. and_then m k = Inr r"
  using assms by (auto simp: and_then_def)

lemma addFieldToDocument_total:
  assumes total: "\<And>l w. \<exists>w'. dr l w = Inr w'"
  shows "\<exists>w'. addFieldToDocument dr w f skip off = Inr w'"
proof -
  have two: "\<exists>r. and_then (dr a w) (dr b) = Inr r" for a b
    by (rule and_then_total) (rule total)+
  have opt: "\<exists>r. and_then (dr a w) (\<lambda>w1. if \<not> skip then dr b w1 else Inr w1) = Inr r" for a b
    by (rule and_then_total) (simp_all add: total)
  have branch: "(\<exists>r. a = Inr r) \<Longrightarrow> (\<exists>r. b = Inr r) \<Longrightarrow> \<exists>r. (if c then a else b) = Inr r"
    for a b :: "error + ('a, 'c, 'd) world" and c
    by simp
  show ?thesis
    unfolding addFieldToDocument_def Let_def
    by (intro branch two opt) blast
qed

lemma addFields_total:
  assumes "\<And>l w. \<exists>w'. dr l w = Inr w'"
  shows "\<exists>w'. addFields dr skip off b fs w n = Inr (w', n + length fs)"
proof (induction fs arbitrary: w n)
  case Nil
  then show ?case by simp
next
  case (Cons f fs)
  obtain w1 where "addFieldToDocument dr w (adjustFieldPosition f b) skip off = Inr w1"
    using addFieldToDocument_total [of dr w "adjustFieldPosition f b" skip off] assms by blast
  with Cons.IH [of w1 "n + 1"] show ?case by auto
qed

lemma generatePdf_total:
  assumes ext: "\<And>c w. \<exists>w'. external env c w = Inr w'"
    and leaf: "\<And>l w. \<exists>w'. leafDraw env l w = Inr w'"
    and sav: "\<And>w. \<exists>bs. docSave env w = Inr bs"
  shows "\<exists>r. generatePdf env options w0 = Inr r"
proof -
  have loop: "\<exists>v. addFields (leafDraw env) skip off b fs w n = Inr v" for skip off b fs w n
    using addFields_total [of "leafDraw env" skip off b fs w n] leaf by blast
  have cover: "\<exists>v. (case cpo of None \<Rightarrow> Inr w
             | Some cp \<Rightarrow> and_then (external env (drawCoverPage fm cp base) w) (external env nextPage))
           = Inr v" for cpo w fm base
    by (cases cpo) (simp_all add: and_then_total ext)
  have fin: "\<exists>r. and_then (docSave env w) k = Inr r" if "\<And>bs. \<exists>r. k bs = Inr r" for w k
    using that by (intro and_then_total sav)
  show ?thesis
    unfolding generatePdf_def Let_def
    by (intro and_then_total cover loop)
       (simp_all add: ext fin split: prod.splits del: split_paired_Ex)
qed

lemma generatePdf_returned_count:
  "generatePdf env options w0 = Inr (pdf, w') \<Longrightarrow>
   fieldCount pdf = length (formFields (schema options))"
  unfolding generatePdf_def Let_def
  by (elim and_then_InrE)
     (auto elim!: and_then_InrE dest!: addFields_count split: prod.splits)

text \<open>
  Claim C10.  Whenever \<open>generatePdf\<close> returns, the \<open>fieldCount\<close> of its result is the
  number of entries of \<open>schema.fields\<close>, fields of unknown type included; and it does
  return, with that count, when none of the collaborators, drawing functions and
  \<open>doc.save\<close> throws.
\<close>

theorem generatePdf_fieldCount:
  "(generatePdf env options w0 = Inr (pdf, w') \<longrightarrow>
      fieldCount pdf = length (formFields (schema options)))
   \<and> ((\<forall>c w. \<exists>v. external env c w = Inr v) \<and> (\<forall>l w. \<exists>v. leafDraw env l w = Inr v)
        \<and> (\<forall>w. \<exists>bs. docSave env w = Inr bs) \<longrightarrow>
       (\<exists>p v. generatePdf env options w0 = Inr (p, v)
           \<and> fieldCount p = length (formFields (schema options))))"
proof (intro conjI impI)
  assume "generatePdf env options w0 = Inr (pdf, w')"
  then show "fieldCount pdf = length (formFields (schema options))"
    by (rule generatePdf_returned_count)
next
  assume total: "(\<forall>c w. \<exists>v. external env c w = Inr v) \<and> (\<forall>l w. \<exists>v. leafDraw env l w = Inr v)
        \<and> (\<forall>w. \<exists>bs. docSave env w = Inr bs)"
  then have "\<exists>r. generatePdf env options w0 = Inr r"
    by (intro generatePdf_total) blast+
  then obtain p v where run: "generatePdf env options w0 = Inr (p, v)"
    by (metis surj_pair)
  from generatePdf_returned_count [OF run] run
  show "\<exists>p v. generatePdf env options w0 = Inr (p, v)
           \<and> fieldCount p = length (formFields (schema options))"
    by blast
qed

theorem generatePdf_fieldCount_witness:
  "generatePdf exampleEnvironment exampleOptions exampleWorld
     = Inr (\<lparr> bytes = [], fieldCount = 2, pageCount = 2, drawnElements = [] \<rparr>,
            exampleWorld\<lparr> console := [''Unknown field type: barcode''] \<rparr>)
   \<and> fieldCount \<lparr> bytes = [], fieldCount = 2, pageCount = 2, drawnElements = ([] :: unit list) \<rparr>
       = length (formFields (schema exampleOptions))
   \<and> (\<exists>p v. generatePdf exampleEnvironment exampleOptions exampleWorld = Inr (p, v)
          \<and> fieldCount p = length (formFields (schema exampleOptions)))"
proof -
  have run: "generatePdf exampleEnvironment exampleOptions exampleWorld
     = Inr (\<lparr> bytes = [], fieldCount = 2, pageCount = 2, drawnElements = [] \<rparr>,
            exampleWorld\<lparr> console := [''Unknown field type: barcode''] \<rparr>)"
    by (simp add: generatePdf_def exampleEnvironment_def exampleOptions_def exampleSchema_def
          exampleWorld_def exampleForm_def exampleField_def and_then_def truthy_def
          hasCoverPage_def pageOffset_def addFieldToDocument_def adjustFieldPosition_def Let_def)
  have total: "(\<forall>c w. \<exists>v. external exampleEnvironment c w = Inr v)
        \<and> (\<forall>l w. \<exists>v. leafDraw exampleEnvironment l w = Inr v)
        \<and> (\<forall>w. \<exists>bs. docSave exampleEnvironment w = Inr bs)"
    by (simp add: exampleEnvironment_def)
  note claim = generatePdf_fieldCount [of exampleEnvironment exampleOptions exampleWorld
      "\<lparr> bytes = [], fieldCount = 2, pageCount = 2, drawnElements = [] \<rparr>"
      "exampleWorld\<lparr> console := [''Unknown field type: barcode''] \<rparr>"]
  from claim run have count:
    "fieldCount \<lparr> bytes = [], fieldCount = 2, pageCount = 2, drawnElements = ([] :: unit list) \<rparr>
       = length (formFields (schema exampleOptions))"
    by blast
  from claim total have
    "\<exists>p v. generatePdf exampleEnvironment exampleOptions exampleWorld = Inr (p, v)
          \<and> fieldCount p = length (formFields (schema exampleOptions))"
    by blast
  with run count show ?thesis by blast
qed

section \<open>The page a field is placed on\<close>

lemma generatePdf_ran_fields:
  assumes "generatePdf env options w0 = Inr (pdf, w')"
  shows "\<exists>w7 skip. addFields (leafDraw env) skip (pageOffset (schema options))
            (y (cursor w7)) (formFields (schema options)) w7 0 = Inr (w', fieldCount pdf)"
  using assms unfolding generatePdf_def Let_def
  apply (elim and_then_InrE)
  apply (clarsimp split: prod.splits elim!: and_then_InrE)
  apply (intro exI)
  apply assumption
  done

lemma and_then_ex:
  assumes "\<exists>v. m = Inr v" and "\<And>v. P (k v)"
  shows "P (and_then m k)"
  using assms by (auto simp: and_then_def)

lemma generatePdf_runs_fields:
  assumes ext: "\<And>c v. \<exists>v'. external env c v = Inr v'"
  shows "\<exists>w7 skip. generatePdf env options w0
     = and_then (addFields (leafDraw env) skip
            (if coverPage (schema options) \<noteq> None then 1 else 0)
            (y (cursor w7)) (formFields (schema options)) w7 0)
         (\<lambda>(w8, n). and_then (docSave env w8)
            (\<lambda>bs. Inr (\<lparr> bytes = bs, fieldCount = n, pageCount = length (world.pages w8),
                         drawnElements = world.drawnElements w8 \<rparr>, w8)))"
proof -
  let ?P = "\<lambda>r. \<exists>w7 skip. r
     = and_then (addFields (leafDraw env) skip
            (if coverPage (schema options) \<noteq> None then 1 else 0)
            (y (cursor w7)) (formFields (schema options)) w7 0)
         (\<lambda>(w8, n). and_then (docSave env w8)
            (\<lambda>bs. Inr (\<lparr> bytes = bs, fieldCount = n, pageCount = length (world.pages w8),
                         drawnElements = world.drawnElements w8 \<rparr>, w8)))"
  have cover: "\<exists>v. (case cpo of None \<Rightarrow> Inr w
             | Some cp \<Rightarrow> and_then (external env (drawCoverPage fm cp base) w) (external env nextPage))
           = Inr v" for cpo w fm base
    by (cases cpo) (simp_all add: and_then_total ext)
  have branch: "\<exists>v. (if c then external env a w else external env b w) = Inr v" for c a b w
    by (simp add: ext)
  show ?thesis
    unfolding generatePdf_def Let_def pageOffset_def hasCoverPage_def
    apply (rule and_then_ex [where P = ?P], rule branch)
    apply (rule and_then_ex [where P = ?P], rule ext)
    apply (rule and_then_ex [where P = ?P], rule ext)
    apply (rule and_then_ex [where P = ?P], rule cover)
    apply (rule and_then_ex [where P = ?P], rule ext)
    apply (rule and_then_ex [where P = ?P], rule ext)
    apply (rule and_then_ex [where P = ?P], rule branch)
    apply (intro exI)
    apply (rule refl)
    done
qed

lemma addFieldToDocument_page:
  "(type f = ''text'' \<longrightarrow>
        addFieldToDocument dr w f skip off
          = and_then
              (dr (createTextField
                     (js_index (world.pages w) (min (page f - 1 + off) (real (length (world.pages w)) - 1))) f) w)
              (\<lambda>w1. if \<not> skip then dr (drawFieldLabel
                     (js_index (world.pages w) (min (page f - 1 + off) (real (length (world.pages w)) - 1))) f) w1
                   else Inr w1))
   \<and> (type f = ''checkbox'' \<longrightarrow>
        addFieldToDocument dr w f skip off
          = and_then
              (dr (createCheckboxField
                     (js_index (world.pages w) (min (page f - 1 + off) (real (length (world.pages w)) - 1))) f) w)
              (dr (drawCheckboxLabel
                 (js_index (world.pages w) (min (page f - 1 + off) (real (length (world.pages w)) - 1))) f)))
   \<and> (type f = ''radio'' \<longrightarrow>
        addFieldToDocument dr w f skip off
          = and_then
              (dr (createRadioGroup
                     (js_index (world.pages w) (min (page f - 1 + off) (real (length (world.pages w)) - 1))) f) w)
              (dr (drawRadioGroupLabels
                 (js_index (world.pages w) (min (page f - 1 + off) (real (length (world.pages w)) - 1))) f)))
   \<and> (type f = ''dropdown'' \<longrightarrow>
        addFieldToDocument dr w f skip off
          = and_then
              (dr (createDropdownField
                     (js_index (world.pages w) (min (page f - 1 + off) (real (length (world.pages w)) - 1))) f) w)
              (dr (drawDropdownLabel
                 (js_index (world.pages w) (min (page f - 1 + off) (real (length (world.pages w)) - 1))) f)))
   \<and> (type f = ''textarea'' \<longrightarrow>
        addFieldToDocument dr w f skip off
          = and_then
              (dr (createTextareaField
                     (js_index (world.pages w) (min (page f - 1 + off) (real (length (world.pages w)) - 1))) f) w)
              (\<lambda>w1. if \<not> skip then dr (drawTextareaLabel
                     (js_index (world.pages w) (min (page f - 1 + off) (real (length (world.pages w)) - 1))) f) w1
                   else Inr w1))
   \<and> (type f = ''signature'' \<longrightarrow>
        addFieldToDocument dr w f skip off
          = and_then
              (dr (createSignatureField
                     (js_index (world.pages w) (min (page f - 1 + off) (real (length (world.pages w)) - 1))) f) w)
              (dr (drawSignatureFieldWithLabel
                 (js_index (world.pages w) (min (page f - 1 + off) (real (length (world.pages w)) - 1))) f)))"
  by (simp add: addFieldToDocument_def pageIndex_def Let_def)

lemma js_index_clamped:
  assumes "ps \<noteq> []" and "real (length ps) - 1 \<le> i"
  shows "js_index ps (min i (real (length ps) - 1)) = Some (last ps)"
proof -
  from assms(2) have "min i (real (length ps) - 1) = real (length ps) - 1"
    by simp
  with assms(1) show ?thesis
    by (simp add: js_index_last)
qed

lemma js_index_in_range:
  assumes "i = real k" and "k < length ps"
  shows "js_index ps (min i (real (length ps) - 1)) = Some (ps ! k)"
proof -
  from assms have "min i (real (length ps) - 1) = real k"
    by (simp add: min_def)
  with assms(2) show ?thesis
    by (simp add: js_index_nat)
qed

lemma adjustFieldPosition_page: "page (adjustFieldPosition g b) = page g"
  by (simp add: adjustFieldPosition_def)

text \<open>
  Claim C2.  \<open>addFieldToDocument\<close> hands every drawing function of the field's type the
  page \<open>ctx.pages[Math.min(field.page - 1 + pageOffset, ctx.pages.length - 1)]\<close>, for each
  of the six field types; on a document that has a page, a logical page at or beyond the
  last one (shifted by the offset) gives the last page of the document, and a logical
  page whose shifted index is an index of the collection gives the page of that index.
  The lookup has no error of its own: when the drawing functions return, so does
  \<open>addFieldToDocument\<close>, whatever the page number.  The loop of \<open>generatePdf\<close> calls
  \<open>addFieldToDocument\<close> on each field, whose page number \<open>adjustFieldPosition\<close> leaves
  unchanged, with the offset it was given, and \<open>generatePdf\<close> runs that loop with the
  offset 1 when the schema has a cover page and 0 when it has none.
\<close>

theorem pageIndex_clamped:
  "pageIndex (page f) (pageOffset sch) (length ps)
     = min (page f - 1 + (if coverPage sch \<noteq> None then 1 else 0)) (real (length ps) - 1)
   \<and> (ps \<noteq> [] \<and> real (length ps) - 1 \<le> page f - 1 + pageOffset sch \<longrightarrow>
        pageIndex (page f) (pageOffset sch) (length ps) = real (length ps) - 1
        \<and> js_index ps (pageIndex (page f) (pageOffset sch) (length ps)) = Some (last ps))
   \<and> (page f - 1 + pageOffset sch = real k \<and> k < length ps \<longrightarrow>
        js_index ps (pageIndex (page f) (pageOffset sch) (length ps)) = Some (ps ! k))
   \<and> (type f = ''text'' \<longrightarrow>
        addFieldToDocument dr w f skip off
          = and_then
              (dr (createTextField
                     (js_index (world.pages w) (min (page f - 1 + off) (real (length (world.pages w)) - 1))) f) w)
              (\<lambda>w1. if \<not> skip then dr (drawFieldLabel
                     (js_index (world.pages w) (min (page f - 1 + off) (real (length (world.pages w)) - 1))) f) w1
                   else Inr w1))
   \<and> (type f = ''checkbox'' \<longrightarrow>
        addFieldToDocument dr w f skip off
          = and_then
              (dr (createCheckboxField
                     (js_index (world.pages w) (min (page f - 1 + off) (real (length (world.pages w)) - 1))) f) w)
              (dr (drawCheckboxLabel
                 (js_index (world.pages w) (min (page f - 1 + off) (real (length (world.pages w)) - 1))) f)))
   \<and> (type f = ''radio'' \<longrightarrow>
        addFieldToDocument dr w f skip off
          = and_then
              (dr (createRadioGroup
                     (js_index (world.pages w) (min (page f - 1 + off) (real (length (world.pages w)) - 1))) f) w)
              (dr (drawRadioGroupLabels
                 (js_index (world.pages w) (min (page f - 1 + off) (real (length (world.pages w)) - 1))) f)))
   \<and> (type f = ''dropdown'' \<longrightarrow>
        addFieldToDocument dr w f skip off
          = and_then
              (dr (createDropdownField
                     (js_index (world.pages w) (min (page f - 1 + off) (real (length (world.pages w)) - 1))) f) w)
              (dr (drawDropdownLabel
                 (js_index (world.pages w) (min (page f - 1 + off) (real (length (world.pages w)) - 1))) f)))
   \<and> (type f = ''textarea'' \<longrightarrow>
        addFieldToDocument dr w f skip off
          = and_then
              (dr (createTextareaField
                     (js_index (world.pages w) (min (page f - 1 + off) (real (length (world.pages w)) - 1))) f) w)
              (\<lambda>w1. if \<not> skip then dr (drawTextareaLabel
                     (js_index (world.pages w) (min (page f - 1 + off) (real (length (world.pages w)) - 1))) f) w1
                   else Inr w1))
   \<and> (type f = ''signature'' \<longrightarrow>
        addFieldToDocument dr w f skip off
          = and_then
              (dr (createSignatureField
                     (js_index (world.pages w) (min (page f - 1 + off) (real (length (world.pages w)) - 1))) f) w)
              (dr (drawSignatureFieldWithLabel
                 (js_index (world.pages w) (min (page f - 1 + off) (real (length (world.pages w)) - 1))) f)))
   \<and> (world.pages w \<noteq> [] \<and> real (length (world.pages w)) - 1 \<le> page f - 1 + off \<longrightarrow>
        js_index (world.pages w) (min (page f - 1 + off) (real (length (world.pages w)) - 1))
          = Some (last (world.pages w)))
   \<and> (page f - 1 + off = real k \<and> k < length (world.pages w) \<longrightarrow>
        js_index (world.pages w) (min (page f - 1 + off) (real (length (world.pages w)) - 1))
          = Some (world.pages w ! k))
   \<and> ((\<forall>l v. \<exists>v'. dr l v = Inr v') \<longrightarrow> (\<exists>v'. addFieldToDocument dr w f skip off = Inr v'))
   \<and> addFields dr skip off b (g # gs) w n
        = (case addFieldToDocument dr w (adjustFieldPosition g b) skip off of
             Inl e \<Rightarrow> Inl e
           | Inr w1 \<Rightarrow> addFields dr skip off b gs w1 (n + 1))
   \<and> page (adjustFieldPosition g b) = page g
   \<and> (generatePdf env options w0 = Inr (pdf, w') \<longrightarrow>
        (\<exists>w7 sk. addFields (leafDraw env) sk
                    (if coverPage (schema options) \<noteq> None then 1 else 0)
                    (y (cursor w7)) (formFields (schema options)) w7 0
                  = Inr (w', fieldCount pdf)))
   \<and> ((\<forall>c v. \<exists>v'. external env c v = Inr v') \<longrightarrow>
        (\<exists>w7 sk. generatePdf env options w0
           = and_then
               (addFields (leafDraw env) sk
                  (if coverPage (schema options) \<noteq> None then 1 else 0)
                  (y (cursor w7)) (formFields (schema options)) w7 0)
               (\<lambda>(w8, n). and_then (docSave env w8)
                  (\<lambda>bs. Inr (\<lparr> bytes = bs, fieldCount = n,
                               pageCount = length (world.pages w8),
                               drawnElements = world.drawnElements w8 \<rparr>, w8)))))"
proof -
  have index: "pageIndex (page f) (pageOffset sch) (length ps)
     = min (page f - 1 + (if coverPage sch \<noteq> None then 1 else 0)) (real (length ps) - 1)"
    by (simp add: pageIndex_def pageOffset_def hasCoverPage_def)
  have clamp: "ps \<noteq> [] \<and> real (length ps) - 1 \<le> page f - 1 + pageOffset sch \<longrightarrow>
        pageIndex (page f) (pageOffset sch) (length ps) = real (length ps) - 1
        \<and> js_index ps (pageIndex (page f) (pageOffset sch) (length ps)) = Some (last ps)"
    by (simp add: pageIndex_clamp js_index_last)
  have inside: "page f - 1 + pageOffset sch = real k \<and> k < length ps \<longrightarrow>
        js_index ps (pageIndex (page f) (pageOffset sch) (length ps)) = Some (ps ! k)"
    by (simp add: pageIndex_in_range js_index_nat)
  have clamp_w: "world.pages w \<noteq> [] \<and> real (length (world.pages w)) - 1 \<le> page f - 1 + off \<longrightarrow>
        js_index (world.pages w) (min (page f - 1 + off) (real (length (world.pages w)) - 1))
          = Some (last (world.pages w))"
    using js_index_clamped [of "world.pages w" "page f - 1 + off"] by blast
  have inside_w: "page f - 1 + off = real k \<and> k < length (world.pages w) \<longrightarrow>
        js_index (world.pages w) (min (page f - 1 + off) (real (length (world.pages w)) - 1))
          = Some (world.pages w ! k)"
    using js_index_in_range [of "page f - 1 + off" k "world.pages w"] by blast
  have returns: "(\<forall>l v. \<exists>v'. dr l v = Inr v') \<longrightarrow> (\<exists>v'. addFieldToDocument dr w f skip off = Inr v')"
    using addFieldToDocument_total [of dr w f skip off] by blast
  have step: "addFields dr skip off b (g # gs) w n
        = (case addFieldToDocument dr w (adjustFieldPosition g b) skip off of
             Inl e \<Rightarrow> Inl e
           | Inr w1 \<Rightarrow> addFields dr skip off b gs w1 (n + 1))"
    by simp
  have ran: "generatePdf env options w0 = Inr (pdf, w') \<longrightarrow>
        (\<exists>w7 sk. addFields (leafDraw env) sk
                    (if coverPage (schema options) \<noteq> None then 1 else 0)
                    (y (cursor w7)) (formFields (schema options)) w7 0
                  = Inr (w', fieldCount pdf))"
    using generatePdf_ran_fields [of env options w0 pdf w']
    unfolding pageOffset_def hasCoverPage_def by blast
  have runs: "(\<forall>c v. \<exists>v'. external env c v = Inr v') \<longrightarrow>
        (\<exists>w7 sk. generatePdf env options w0
           = and_then
               (addFields (leafDraw env) sk
                  (if coverPage (schema options) \<noteq> None then 1 else 0)
                  (y (cursor w7)) (formFields (schema options)) w7 0)
               (\<lambda>(w8, n). and_then (docSave env w8)
                  (\<lambda>bs. Inr (\<lparr> bytes = bs, fieldCount = n,
                               pageCount = length (world.pages w8),
                               drawnElements = world.drawnElements w8 \<rparr>, w8))))"
    using generatePdf_runs_fields [of env options w0] by blast
  show ?thesis
    by (intro conjI index clamp inside
          addFieldToDocument_page [THEN conjunct1]
          addFieldToDocument_page [THEN conjunct2, THEN conjunct1]
          addFieldToDocument_page [THEN conjunct2, THEN conjunct2, THEN conjunct1]
          addFieldToDocument_page [THEN conjunct2, THEN conjunct2, THEN conjunct2, THEN conjunct1]
          addFieldToDocument_page [THEN conjunct2, THEN conjunct2, THEN conjunct2, THEN conjunct2,
            THEN conjunct1]
          addFieldToDocument_page [THEN conjunct2, THEN conjunct2, THEN conjunct2, THEN conjunct2,
            THEN conjunct2]
          clamp_w inside_w returns step adjustFieldPosition_page ran runs)
qed

theorem pageIndex_clamped_witness:
  "[10, 20] \<noteq> ([] :: nat list)
   \<and> real (length [10 :: nat, 20]) - 1
       \<le> page (exampleField ''text'' 99 0) - 1 + pageOffset exampleSchema
   \<and> pageIndex (page (exampleField ''text'' 99 0)) (pageOffset exampleSchema)
         (length [10 :: nat, 20]) = 1
   \<and> js_index [10 :: nat, 20]
         (pageIndex (page (exampleField ''text'' 99 0)) (pageOffset exampleSchema)
            (length [10 :: nat, 20])) = Some 20
   \<and> page (exampleField ''text'' 1 0) - 1 + pageOffset exampleSchema = real (0 :: nat)
   \<and> js_index [10 :: nat, 20]
         (pageIndex (page (exampleField ''text'' 1 0)) (pageOffset exampleSchema)
            (length [10 :: nat, 20])) = Some 10
   \<and> type (exampleField ''checkbox'' 99 10) = ''checkbox''
   \<and> world.pages threePageWorld \<noteq> []
   \<and> real (length (world.pages threePageWorld)) - 1
       \<le> page (exampleField ''checkbox'' 99 10) - 1 + 1
   \<and> js_index (world.pages threePageWorld)
         (min (page (exampleField ''checkbox'' 99 10) - 1 + 1)
            (real (length (world.pages threePageWorld)) - 1)) = Some 2
   \<and> addFieldToDocument (leafDraw recordingEnvironment) threePageWorld
         (exampleField ''checkbox'' 99 10) False 1
       = Inr (threePageWorld
               \<lparr> world.drawnElements :=
                   [createCheckboxField (Some 2) (exampleField ''checkbox'' 99 10),
                    drawCheckboxLabel (Some 2) (exampleField ''checkbox'' 99 10)] \<rparr>)
   \<and> generatePdf recordingEnvironment coverOptions threePageWorld
       = Inr (\<lparr> bytes = [], fieldCount = 2, pageCount = 3,
                drawnElements =
                  [createTextField (Some 1) (exampleField ''text'' 1 650),
                   drawFieldLabel (Some 1) (exampleField ''text'' 1 650),
                   createCheckboxField (Some 2) (exampleField ''checkbox'' 99 10),
                   drawCheckboxLabel (Some 2) (exampleField ''checkbox'' 99 10)] \<rparr>,
              threePageWorld
                \<lparr> world.drawnElements :=
                    [createTextField (Some 1) (exampleField ''text'' 1 650),
                     drawFieldLabel (Some 1) (exampleField ''text'' 1 650),
                     createCheckboxField (Some 2) (exampleField ''checkbox'' 99 10),
                     drawCheckboxLabel (Some 2) (exampleField ''checkbox'' 99 10)] \<rparr>)
   \<and> (\<exists>w7 sk. addFields (leafDraw recordingEnvironment) sk 1 (y (cursor w7))
                  (formFields (schema coverOptions)) w7 0
                = Inr (threePageWorld
                        \<lparr> world.drawnElements :=
                            [createTextField (Some 1) (exampleField ''text'' 1 650),
                             drawFieldLabel (Some 1) (exampleField ''text'' 1 650),
                             createCheckboxField (Some 2) (exampleField ''checkbox'' 99 10),
                             drawCheckboxLabel (Some 2) (exampleField ''checkbox'' 99 10)] \<rparr>,
                       2))"
proof -
  let ?box = "exampleField ''checkbox'' 99 10"
  let ?els = "[createTextField (Some 1) (exampleField ''text'' 1 650),
               drawFieldLabel (Some 1) (exampleField ''text'' 1 650),
               createCheckboxField (Some (2 :: nat)) ?box,
               drawCheckboxLabel (Some 2) ?box]"
  let ?pdf = "\<lparr> bytes = [], fieldCount = 2, pageCount = 3, drawnElements = ?els \<rparr>"
  let ?end = "threePageWorld \<lparr> world.drawnElements := ?els \<rparr>"
  have h: "[10, 20] \<noteq> ([] :: nat list)
     \<and> real (length [10 :: nat, 20]) - 1
         \<le> page (exampleField ''text'' 99 0) - 1 + pageOffset exampleSchema"
    by (simp add: exampleField_def exampleSchema_def pageOffset_def hasCoverPage_def)
  have g: "page (exampleField ''text'' 1 0) - 1 + pageOffset exampleSchema = real (0 :: nat)
     \<and> (0 :: nat) < length [10 :: nat, 20]"
    by (simp add: exampleField_def exampleSchema_def pageOffset_def hasCoverPage_def)
  have kind: "type ?box = ''checkbox''"
    by (simp add: exampleField_def)
  have beyond: "world.pages threePageWorld \<noteq> []
     \<and> real (length (world.pages threePageWorld)) - 1 \<le> page ?box - 1 + 1"
    by (simp add: exampleField_def threePageWorld_def)
  have run: "generatePdf recordingEnvironment coverOptions threePageWorld = Inr (?pdf, ?end)"
    by (simp add: generatePdf_def recordingEnvironment_def coverOptions_def
          threePageWorld_def exampleForm_def exampleField_def and_then_def truthy_def
          hasCoverPage_def pageOffset_def addFieldToDocument_def adjustFieldPosition_def
          pageIndex_def js_index_def Let_def)
  have cover: "(if coverPage (schema coverOptions) \<noteq> None then 1 else 0) = (1 :: real)"
    by (simp add: coverOptions_def)
  note far = pageIndex_clamped [where f = "exampleField ''text'' 99 0" and sch = exampleSchema
      and ps = "[10 :: nat, 20]"]
  from far h
  have last: "pageIndex (page (exampleField ''text'' 99 0)) (pageOffset exampleSchema)
            (length [10 :: nat, 20])
          = real (length [10 :: nat, 20]) - 1
        \<and> js_index [10 :: nat, 20]
            (pageIndex (page (exampleField ''text'' 99 0)) (pageOffset exampleSchema)
               (length [10 :: nat, 20]))
          = Some (last [10 :: nat, 20])"
    by blast
  note near = pageIndex_clamped [where f = "exampleField ''text'' 1 0" and sch = exampleSchema
      and ps = "[10 :: nat, 20]" and k = 0]
  from near g
  have first: "js_index [10 :: nat, 20]
         (pageIndex (page (exampleField ''text'' 1 0)) (pageOffset exampleSchema)
            (length [10 :: nat, 20])) = Some ([10 :: nat, 20] ! 0)"
    by blast
  note placed = pageIndex_clamped [where f = ?box and w = threePageWorld and off = 1
      and dr = "leafDraw recordingEnvironment" and skip = False
      and env = recordingEnvironment and options = coverOptions and ?w0.0 = threePageWorld
      and pdf = ?pdf and w' = ?end]
  from placed beyond
  have pg: "js_index (world.pages threePageWorld)
         (min (page ?box - 1 + 1) (real (length (world.pages threePageWorld)) - 1))
       = Some (last (world.pages threePageWorld))"
    by blast
  have pg2: "js_index (world.pages threePageWorld)
         (min (page ?box - 1 + 1) (real (length (world.pages threePageWorld)) - 1)) = Some 2"
    unfolding pg by (simp add: threePageWorld_def)
  from placed kind
  have "addFieldToDocument (leafDraw recordingEnvironment) threePageWorld ?box False 1
      = and_then
          (leafDraw recordingEnvironment
             (createCheckboxField
                (js_index (world.pages threePageWorld)
                   (min (page ?box - 1 + 1) (real (length (world.pages threePageWorld)) - 1)))
                ?box)
             threePageWorld)
          (leafDraw recordingEnvironment
             (drawCheckboxLabel
                (js_index (world.pages threePageWorld)
                   (min (page ?box - 1 + 1) (real (length (world.pages threePageWorld)) - 1)))
                ?box))"
    by blast
  then have one: "addFieldToDocument (leafDraw recordingEnvironment) threePageWorld ?box False 1
      = Inr (threePageWorld
              \<lparr> world.drawnElements :=
                  [createCheckboxField (Some 2) ?box, drawCheckboxLabel (Some 2) ?box] \<rparr>)"
    unfolding pg2 by (simp add: recordingEnvironment_def threePageWorld_def and_then_def)
  from placed run
  have "\<exists>w7 sk. addFields (leafDraw recordingEnvironment) sk
                    (if coverPage (schema coverOptions) \<noteq> None then 1 else 0)
                    (y (cursor w7)) (formFields (schema coverOptions)) w7 0
                  = Inr (?end, fieldCount ?pdf)"
    by blast
  then have loop: "\<exists>w7 sk. addFields (leafDraw recordingEnvironment) sk 1 (y (cursor w7))
                  (formFields (schema coverOptions)) w7 0 = Inr (?end, 2)"
    unfolding cover by simp
  have a: "pageIndex (page (exampleField ''text'' 99 0)) (pageOffset exampleSchema)
         (length [10 :: nat, 20]) = 1"
    using last [THEN conjunct1] by simp
  have b: "js_index [10 :: nat, 20]
         (pageIndex (page (exampleField ''text'' 99 0)) (pageOffset exampleSchema)
            (length [10 :: nat, 20])) = Some 20"
    using last [THEN conjunct2] by simp
  have c: "js_index [10 :: nat, 20]
         (pageIndex (page (exampleField ''text'' 1 0)) (pageOffset exampleSchema)
            (length [10 :: nat, 20])) = Some 10"
    using first by simp
  show ?thesis
    by (intro conjI h [THEN conjunct1] h [THEN conjunct2] a b g [THEN conjunct1] c kind
          beyond [THEN conjunct1] beyond [THEN conjunct2] pg2 one run loop)
qed

section \<open>Properties of the HTML cover page\<close>

subsection \<open>\<open>escapeHtml\<close>\<close>

lemma filter_markup_escapeChar: "filter isMarkupChar (escapeChar c) = []"
  by (simp add: escapeChar_def isMarkupChar_def)

lemma filter_markup_escapeHtml: "filter isMarkupChar (escapeHtml s) = []"
  by (induction s) (simp_all add: escapeHtml_def filter_markup_escapeChar)

lemma entityTail_append: "entityTail cs \<Longrightarrow> entityTail (cs @ ds)"
  by (auto simp: entityTail_def intro: prefix_prefix)

lemma ampersandsEscaped_append:
  "ampersandsEscaped cs \<Longrightarrow> ampersandsEscaped ds \<Longrightarrow> ampersandsEscaped (cs @ ds)"
  by (induction cs) (auto simp: entityTail_append)

lemma ampersandsEscaped_escapeChar: "ampersandsEscaped (escapeChar c)"
  by (simp add: escapeChar_def entityTail_def)

lemma ampersandsEscaped_escapeHtml: "ampersandsEscaped (escapeHtml s)"
  by (induction s)
     (simp_all add: escapeHtml_def ampersandsEscaped_append ampersandsEscaped_escapeChar)

lemma ampersandsEscaped_no_amp: "CHR ''&'' \<notin> set cs \<Longrightarrow> ampersandsEscaped cs"
  by (induction cs) auto

lemma ampersandsEscaped_join:
  "ampersandsEscaped sep \<Longrightarrow> \<forall>s \<in> set xs. ampersandsEscaped s \<Longrightarrow>
   ampersandsEscaped (js_join sep xs)"
  by (induction sep xs rule: js_join.induct) (simp_all add: ampersandsEscaped_append)

lemma filter_js_join:
  "filter P (js_join sep xs) = js_join (filter P sep) (map (filter P) xs)"
  by (induction sep xs rule: js_join.induct) simp_all

lemma js_join_const:
  "length xs = length ys \<Longrightarrow> js_join sep (map (\<lambda>_. k) xs) = js_join sep (map (\<lambda>_. k) ys)"
  by (simp add: map_replicate_const)

lemma length_filter_map: "length (filter P xs) = length (filter (\<lambda>b. b) (map P xs))"
  by (induction xs) simp_all

lemma js_join_eq_Nil: "\<forall>s \<in> set xs. s \<noteq> [] \<Longrightarrow> (js_join sep xs = []) = (xs = [])"
  by (induction sep xs rule: js_join.induct) simp_all

lemma filter_js_join_rows:
  assumes const: "\<And>e e'. filter P (row e) = filter P (row e')"
    and len: "length es = length es'"
  shows "filter P (js_join sep (map row es)) = filter P (js_join sep (map row es'))"
proof -
  obtain k where k: "\<And>e. filter P (row e) = k"
    using const by blast
  have "map (filter P) (map row es) = map (\<lambda>_. k) es"
    and "map (filter P) (map row es') = map (\<lambda>_. k) es'"
    by (simp_all add: k)
  then show ?thesis
    by (simp only: filter_js_join js_join_const [OF len])
qed

subsection \<open>Every ampersand of the output starts an entity\<close>

lemma amp_coverImageStyle: "ampersandsEscaped (coverImageStyle cp)"
  by (simp add: coverImageStyle_def ampersandsEscaped_append ampersandsEscaped_escapeHtml)

lemma amp_watermarkHtml: "ampersandsEscaped (watermarkHtml cp)"
  by (simp add: watermarkHtml_def ampersandsEscaped_append ampersandsEscaped_escapeHtml)

lemma amp_logoHtml: "ampersandsEscaped (logoHtml cp)"
  by (simp add: logoHtml_def ampersandsEscaped_append ampersandsEscaped_escapeHtml)

lemma amp_titleHtml: "ampersandsEscaped (titleHtml fm)"
  by (simp add: titleHtml_def ampersandsEscaped_append ampersandsEscaped_escapeHtml)

lemma amp_subtitleHtml: "ampersandsEscaped (subtitleHtml cp)"
  by (simp add: subtitleHtml_def ampersandsEscaped_append ampersandsEscaped_escapeHtml)

lemma amp_metaRow: "ampersandsEscaped (metaRow e)"
  by (simp add: metaRow_def ampersandsEscaped_append ampersandsEscaped_escapeHtml)

lemma amp_metaRows: "ampersandsEscaped (metaRows fm cp)"
  by (simp add: metaRows_def ampersandsEscaped_join amp_metaRow)

lemma amp_metaHtml: "ampersandsEscaped (metaHtml fm cp)"
  by (simp add: metaHtml_def ampersandsEscaped_append amp_metaRows)

lemma amp_revisionRow: "ampersandsEscaped (revisionRow e)"
  by (simp add: revisionRow_def ampersandsEscaped_append ampersandsEscaped_escapeHtml)

lemma amp_revisionHtml: "ampersandsEscaped (revisionHtml cp)"
  by (simp add: revisionHtml_def ampersandsEscaped_append ampersandsEscaped_join amp_revisionRow
        split: option.splits)

lemma amp_legalHtml: "ampersandsEscaped (legalHtml cp)"
  by (simp add: legalHtml_def ampersandsEscaped_append ampersandsEscaped_join
        ampersandsEscaped_escapeHtml)

lemma amp_render: "ampersandsEscaped (renderCoverPageHtml fm cp)"
  by (simp add: renderCoverPageHtml_def ampersandsEscaped_append amp_coverImageStyle
        amp_watermarkHtml amp_logoHtml amp_titleHtml amp_subtitleHtml amp_metaHtml
        amp_revisionHtml amp_legalHtml)

subsection \<open>The markup characters of the output do not depend on the strings\<close>

lemma markup_coverImageStyle:
  "truthy (coverImage cp) = truthy (coverImage cp') \<Longrightarrow>
   filter isMarkupChar (coverImageStyle cp) = filter isMarkupChar (coverImageStyle cp')"
  by (cases "truthy (coverImage cp')")
     (simp_all only: coverImageStyle_def filter_append filter_markup_escapeHtml if_True if_False)

lemma markup_watermarkHtml:
  "truthy (watermark cp) = truthy (watermark cp') \<Longrightarrow>
   filter isMarkupChar (watermarkHtml cp) = filter isMarkupChar (watermarkHtml cp')"
  by (cases "truthy (watermark cp')")
     (simp_all only: watermarkHtml_def filter_append filter_markup_escapeHtml if_True if_False)

lemma markup_logoHtml:
  "truthy (logo cp) = truthy (logo cp') \<Longrightarrow>
   filter isMarkupChar (logoHtml cp) = filter isMarkupChar (logoHtml cp')"
  by (cases "truthy (logo cp')")
     (simp_all only: logoHtml_def filter_append filter_markup_escapeHtml if_True if_False)

lemma markup_titleHtml:
  "filter isMarkupChar (titleHtml fm) = filter isMarkupChar (titleHtml fm')"
  by (simp only: titleHtml_def filter_append filter_markup_escapeHtml)

lemma markup_subtitleHtml:
  "truthy (subtitle cp) = truthy (subtitle cp') \<Longrightarrow>
   filter isMarkupChar (subtitleHtml cp) = filter isMarkupChar (subtitleHtml cp')"
  by (cases "truthy (subtitle cp')")
     (simp_all only: subtitleHtml_def filter_append filter_markup_escapeHtml if_True if_False)

lemma markup_metaRow: "filter isMarkupChar (metaRow e) = filter isMarkupChar (metaRow e')"
  by (simp only: metaRow_def filter_append filter_markup_escapeHtml)

lemma metaRow_nonempty: "metaRow e \<noteq> []"
  by (simp add: metaRow_def)

lemma metaRows_count:
  assumes "map (\<lambda>entry. truthy (snd entry)) (metaFields fm cp)
             = map (\<lambda>entry. truthy (snd entry)) (metaFields fm' cp')"
  shows "length (filter (\<lambda>entry. truthy (snd entry)) (metaFields fm cp))
           = length (filter (\<lambda>entry. truthy (snd entry)) (metaFields fm' cp'))"
  using assms
  by (simp only: length_filter_map [of "\<lambda>entry. truthy (snd entry)"])

lemma metaRows_empty:
  "(metaRows fm cp = []) = (filter (\<lambda>entry. truthy (snd entry)) (metaFields fm cp) = [])"
  by (simp add: metaRows_def js_join_eq_Nil metaRow_nonempty)

lemma markup_metaHtml:
  assumes "map (\<lambda>entry. truthy (snd entry)) (metaFields fm cp)
             = map (\<lambda>entry. truthy (snd entry)) (metaFields fm' cp')"
  shows "filter isMarkupChar (metaHtml fm cp) = filter isMarkupChar (metaHtml fm' cp')"
proof -
  have len: "length (filter (\<lambda>entry. truthy (snd entry)) (metaFields fm cp))
           = length (filter (\<lambda>entry. truthy (snd entry)) (metaFields fm' cp'))"
    using assms by (rule metaRows_count)
  have rows: "filter isMarkupChar (metaRows fm cp) = filter isMarkupChar (metaRows fm' cp')"
    unfolding metaRows_def by (rule filter_js_join_rows [OF markup_metaRow len])
  have "(metaRows fm cp = []) = (metaRows fm' cp' = [])"
    unfolding metaRows_empty using len by (metis length_0_conv)
  with rows show ?thesis
    by (cases "metaRows fm' cp' = []")
       (simp_all only: metaHtml_def filter_append simp_thms if_True if_False)
qed

lemma markup_revisionRow:
  "filter isMarkupChar (revisionRow e) = filter isMarkupChar (revisionRow e')"
  by (simp only: revisionRow_def filter_append filter_markup_escapeHtml)

lemma revisionHtml_None: "revisionHistory cp = None \<Longrightarrow> revisionHtml cp = []"
  by (simp add: revisionHtml_def)

lemma revisionHtml_Nil: "revisionHistory cp = Some [] \<Longrightarrow> revisionHtml cp = []"
  by (simp add: revisionHtml_def)

lemma markup_revisionHtml_Some:
  assumes "revisionHistory cp = Some h" and "revisionHistory cp' = Some h'"
    and "length h = length h'"
  shows "filter isMarkupChar (revisionHtml cp) = filter isMarkupChar (revisionHtml cp')"
proof -
  have rows: "filter isMarkupChar (js_join ''\<newline>'' (map revisionRow h))
        = filter isMarkupChar (js_join ''\<newline>'' (map revisionRow h'))"
    by (rule filter_js_join_rows [OF markup_revisionRow assms(3)])
  from assms(3) have "(h = []) = (h' = [])" by auto
  with rows show ?thesis
    by (cases "h' = []")
       (simp_all only: revisionHtml_def assms(1,2) option.case filter_append
          length_greater_0_conv simp_thms if_True if_False)
qed

lemma markup_revisionHtml:
  assumes "historyLength cp = historyLength cp'"
  shows "filter isMarkupChar (revisionHtml cp) = filter isMarkupChar (revisionHtml cp')"
proof (cases "revisionHistory cp")
  case None
  note left = this
  show ?thesis
  proof (cases "revisionHistory cp'")
    case None
    with left show ?thesis by (simp add: revisionHtml_None)
  next
    case (Some h')
    with left assms have "revisionHistory cp' = Some []"
      by (simp add: historyLength_def)
    with left show ?thesis by (simp add: revisionHtml_None revisionHtml_Nil)
  qed
next
  case (Some h)
  note left = this
  show ?thesis
  proof (cases "revisionHistory cp'")
    case None
    with left assms have "revisionHistory cp = Some []"
      by (simp add: historyLength_def)
    with None show ?thesis by (simp add: revisionHtml_None revisionHtml_Nil)
  next
    case (Some h')
    with left assms have "length h = length h'"
      by (simp add: historyLength_def)
    with left Some show ?thesis by (rule markup_revisionHtml_Some)
  qed
qed

lemma legalFields_count:
  assumes "map truthy [CoverPage.copyright cp, disclaimer cp, distributionStatement cp]
             = map truthy [CoverPage.copyright cp', disclaimer cp', distributionStatement cp']"
  shows "length (legalFields cp) = length (legalFields cp')"
  using assms by (simp add: legalFields_def)

lemma markup_legalHtml:
  assumes "map truthy [CoverPage.copyright cp, disclaimer cp, distributionStatement cp]
             = map truthy [CoverPage.copyright cp', disclaimer cp', distributionStatement cp']"
  shows "filter isMarkupChar (legalHtml cp) = filter isMarkupChar (legalHtml cp')"
proof -
  have len: "length (legalFields cp) = length (legalFields cp')"
    using assms by (rule legalFields_count)
  have "filter isMarkupChar (js_join ''\<newline>'' (map (\<lambda>t. ''<p>'' @ escapeHtml t @ ''</p>'') (legalFields cp)))
      = filter isMarkupChar (js_join ''\<newline>'' (map (\<lambda>t. ''<p>'' @ escapeHtml t @ ''</p>'') (legalFields cp')))"
    by (rule filter_js_join_rows [OF _ len]) (simp only: filter_append filter_markup_escapeHtml)
  with len show ?thesis
    by (cases "legalFields cp' = []")
       (simp_all only: legalHtml_def filter_append length_greater_0_conv length_0_conv
          simp_thms if_True if_False)
qed

lemma markup_render:
  assumes "sameShape fm cp fm' cp'"
  shows "filter isMarkupChar (renderCoverPageHtml fm cp)
           = filter isMarkupChar (renderCoverPageHtml fm' cp')"
proof -
  from assms have
    "filter isMarkupChar (coverImageStyle cp) = filter isMarkupChar (coverImageStyle cp')"
    "filter isMarkupChar (watermarkHtml cp) = filter isMarkupChar (watermarkHtml cp')"
    "filter isMarkupChar (logoHtml cp) = filter isMarkupChar (logoHtml cp')"
    "filter isMarkupChar (subtitleHtml cp) = filter isMarkupChar (subtitleHtml cp')"
    "filter isMarkupChar (metaHtml fm cp) = filter isMarkupChar (metaHtml fm' cp')"
    "filter isMarkupChar (revisionHtml cp) = filter isMarkupChar (revisionHtml cp')"
    "filter isMarkupChar (legalHtml cp) = filter isMarkupChar (legalHtml cp')"
    unfolding sameShape_def
    by (blast intro: markup_coverImageStyle markup_watermarkHtml markup_logoHtml
          markup_subtitleHtml markup_metaHtml markup_revisionHtml markup_legalHtml)+
  then show ?thesis
    by (simp only: renderCoverPageHtml_def filter_append markup_titleHtml [of fm fm'])
qed

lemma escapeHtml_append: "escapeHtml (s @ t) = escapeHtml s @ escapeHtml t"
  by (simp add: escapeHtml_def)

subsection \<open>The output is a fixed template around escaped strings\<close>

lemma coverImageStyle_template:
  "\<exists>a b. \<forall>cp. coverImageStyle cp
     = (if truthy (coverImage cp) then a @ escapeHtml (orEmpty (coverImage cp)) @ b else [])"
proof (intro exI allI)
  fix cp
  show "coverImageStyle cp
     = (if truthy (coverImage cp)
        then ('' style=\"background-image: url('' @ [CHR 0x27])
             @ escapeHtml (orEmpty (coverImage cp))
             @ ([CHR 0x27] @ ''); background-size: cover; background-position: center; background-repeat: no-repeat;\"'')
        else [])"
    unfolding coverImageStyle_def by (simp only: append_assoc)
qed

lemma watermarkHtml_template:
  "\<exists>a b. \<forall>cp. watermarkHtml cp
     = (if truthy (watermark cp) then a @ escapeHtml (orEmpty (watermark cp)) @ b else [])"
  unfolding watermarkHtml_def by blast

lemma logoHtml_template:
  "\<exists>a b. \<forall>cp. logoHtml cp
     = (if truthy (logo cp) then a @ escapeHtml (orEmpty (logo cp)) @ b else [])"
  unfolding logoHtml_def by blast

lemma titleHtml_template: "\<exists>a b. \<forall>fm. titleHtml fm = a @ escapeHtml (title fm) @ b"
  unfolding titleHtml_def by blast

lemma subtitleHtml_template:
  "\<exists>a b. \<forall>cp. subtitleHtml cp
     = (if truthy (subtitle cp) then a @ escapeHtml (orEmpty (subtitle cp)) @ b else [])"
  unfolding subtitleHtml_def by blast

lemma metaRow_template:
  "\<exists>a b c. \<forall>label value. metaRow (label, value)
     = a @ escapeHtml label @ b @ escapeHtml (orEmpty value) @ c"
  unfolding metaRow_def fst_conv snd_conv by blast

lemma metaHtml_template:
  "\<exists>a b sep. \<forall>fm cp. metaHtml fm cp
     = (if filter (\<lambda>entry. truthy (snd entry)) (metaFields fm cp) \<noteq> []
        then a @ js_join sep
                 (map metaRow (filter (\<lambda>entry. truthy (snd entry)) (metaFields fm cp))) @ b
        else [])"
  unfolding metaHtml_def metaRows_empty unfolding metaRows_def by blast

lemma revisionRow_template:
  "\<exists>a b c d e. \<forall>entry. revisionRow entry
     = a @ escapeHtml (RevisionEntry.version entry) @ b @ escapeHtml (RevisionEntry.date entry)
       @ c @ escapeHtml (RevisionEntry.author entry) @ d
       @ escapeHtml (RevisionEntry.description entry) @ e"
proof (intro exI allI)
  fix entry
  show "revisionRow entry
     = (''<tr>\<newline>'' @ ''            <td>'') @ escapeHtml (RevisionEntry.version entry)
       @ (''</td>\<newline>'' @ ''            <td>'') @ escapeHtml (RevisionEntry.date entry)
       @ (''</td>\<newline>'' @ ''            <td>'') @ escapeHtml (RevisionEntry.author entry)
       @ (''</td>\<newline>'' @ ''            <td>'')
       @ escapeHtml (RevisionEntry.description entry)
       @ (''</td>\<newline>'' @ ''          </tr>'')"
    unfolding revisionRow_def by (simp only: append_assoc)
qed

lemma revisionHtml_template:
  "\<exists>a b sep. \<forall>cp. revisionHtml cp
     = (case revisionHistory cp of
          None \<Rightarrow> []
        | Some history \<Rightarrow>
            if length history > 0 then a @ js_join sep (map revisionRow history) @ b else [])"
proof (intro exI allI)
  fix cp
  show "revisionHtml cp
     = (case revisionHistory cp of
          None \<Rightarrow> []
        | Some history \<Rightarrow>
            if length history > 0
            then (''\<newline>''
                  @ ''      <div class=\"cover-revision-history\">\<newline>''
                  @ ''        <h3>Revision History</h3>\<newline>''
                  @ ''        <table>\<newline>''
                  @ ''          <thead>\<newline>''
                  @ ''            <tr>\<newline>''
                  @ ''              <th>Version</th>\<newline>''
                  @ ''              <th>Date</th>\<newline>''
                  @ ''              <th>Author</th>\<newline>''
                  @ ''              <th>Description</th>\<newline>''
                  @ ''            </tr>\<newline>''
                  @ ''          </thead>\<newline>''
                  @ ''          <tbody>'')
                 @ js_join ''\<newline>'' (map revisionRow history)
                 @ (''</tbody>\<newline>'' @ ''        </table>\<newline>'' @ ''      </div>'')
            else [])"
    unfolding revisionHtml_def by (simp only: append_assoc)
qed

lemma legalHtml_template:
  "\<exists>a b p q sep. \<forall>cp. legalHtml cp
     = (if length (legalFields cp) > 0
        then a @ js_join sep (map (\<lambda>t. p @ escapeHtml t @ q) (legalFields cp)) @ b
        else [])"
proof (intro exI allI)
  fix cp
  show "legalHtml cp
     = (if length (legalFields cp) > 0
        then (''<div class=\"cover-legal\">\<newline>'' @ ''        '')
             @ js_join ''\<newline>''
                 (map (\<lambda>t. ''<p>'' @ escapeHtml t @ ''</p>'') (legalFields cp))
             @ (''\<newline>'' @ ''      </div>'')
        else [])"
    unfolding legalHtml_def by (simp only: append_assoc)
qed

lemma render_template:
  "\<exists>a0 a1 a2 a3 a4 a5 a6 a7 a8. \<forall>fm cp. renderCoverPageHtml fm cp
     = a0 @ coverImageStyle cp @ a1 @ watermarkHtml cp @ a2 @ logoHtml cp @ a3 @ titleHtml fm
       @ a4 @ subtitleHtml cp @ a5 @ metaHtml fm cp @ a6 @ revisionHtml cp @ a7
       @ legalHtml cp @ a8"
proof (intro exI allI)
  fix fm cp
  show "renderCoverPageHtml fm cp
     = (''\<newline>'' @ ''    <div class=\"page cover-page\"'') @ coverImageStyle cp
       @ (''>\<newline>'' @ ''      '') @ watermarkHtml cp
       @ (''\<newline>'' @ ''      <div class=\"cover-content\">\<newline>'' @ ''        '')
       @ logoHtml cp
       @ (''\<newline>'' @ ''        '') @ titleHtml fm
       @ (''\<newline>'' @ ''        '') @ subtitleHtml cp
       @ (''\<newline>'' @ ''        <hr class=\"cover-divider\" />\<newline>'' @ ''        '')
       @ metaHtml fm cp
       @ (''\<newline>'' @ ''        '') @ revisionHtml cp
       @ (''\<newline>'' @ ''      </div>\<newline>'' @ ''      '') @ legalHtml cp
       @ (''\<newline>'' @ ''    </div>'')"
    unfolding renderCoverPageHtml_def by (simp only: append_assoc)
qed

lemma metaFields_values:
  "map snd (metaFields fm cp)
     = [organization cp, department cp, documentNumber cp, documentType cp, status cp,
        classification cp, CoverPage.date cp, effectiveDate cp, reviewDate cp,
        FormMetadata.version fm, FormMetadata.author fm, preparedBy cp, reviewedBy cp,
        approvedBy cp]"
  by (simp add: metaFields_def)

lemma legalFields_values:
  "legalFields cp
     = map orEmpty (filter truthy [CoverPage.copyright cp, disclaimer cp, distributionStatement cp])"
  by (simp only: legalFields_def)

lemma escapeHtml_other:
  "c \<noteq> CHR ''&'' \<Longrightarrow> \<not> isMarkupChar c \<Longrightarrow> escapeHtml [c] = [c]"
  by (simp add: escapeHtml_def escapeChar_def isMarkupChar_def)

lemma metaFields_title: "metaFields (fm\<lparr> title := t \<rparr>) cp = metaFields fm cp"
  by (simp add: metaFields_def)

lemma metaHtml_title: "metaHtml (fm\<lparr> title := t \<rparr>) cp = metaHtml fm cp"
  by (simp only: metaHtml_def metaRows_def metaFields_title)

lemma render_title_context:
  "\<exists>a b. \<forall>t. renderCoverPageHtml (fm\<lparr> title := t \<rparr>) cp = a @ escapeHtml t @ b"
proof -
  obtain a0 a1 a2 a3 a4 a5 a6 a7 a8 where
    r: "\<And>fm cp. renderCoverPageHtml fm cp
     = a0 @ coverImageStyle cp @ a1 @ watermarkHtml cp @ a2 @ logoHtml cp @ a3 @ titleHtml fm
       @ a4 @ subtitleHtml cp @ a5 @ metaHtml fm cp @ a6 @ revisionHtml cp @ a7
       @ legalHtml cp @ a8"
    using render_template by blast
  obtain p q where t: "\<And>fm. titleHtml fm = p @ escapeHtml (title fm) @ q"
    using titleHtml_template by blast
  have "\<forall>t. renderCoverPageHtml (fm\<lparr> title := t \<rparr>) cp
     = (a0 @ coverImageStyle cp @ a1 @ watermarkHtml cp @ a2 @ logoHtml cp @ a3 @ p)
       @ escapeHtml t
       @ (q @ a4 @ subtitleHtml cp @ a5 @ metaHtml fm cp @ a6 @ revisionHtml cp @ a7
          @ legalHtml cp @ a8)"
    by (simp add: r t metaHtml_title)
  then show ?thesis by blast
qed

text \<open>
  Claim C9.  \<open>escapeHtml\<close> works character by character: it writes the entity of each of
  the five characters and leaves every other character as it is, so an escaped string
  holds none of \<open><\<close>, \<open>>\<close>, the double quote and the single quote, and each of its
  ampersands starts an entity.  The output of \<open>renderCoverPageHtml\<close> is a fixed template:
  constant text around the eight parts, and each part is constant text around
  \<open>escapeHtml\<close> of the input string it shows (cover image path, watermark, logo path,
  title, subtitle, the label and the value of each metadata row, the four columns of
  each revision entry, each legal text), or empty when the string is absent.  No input
  string reaches the output in any other way; in particular the output is constant text
  around \<open>escapeHtml\<close> of the title, for every title.  Hence every ampersand of the
  output starts an entity, and the sequence of the characters \<open><\<close>, \<open>>\<close>, double quote
  and single quote in the output is the same for any two inputs of the same shape.
\<close>

theorem renderCoverPageHtml_escaped:
  "escapeHtml (s @ t) = escapeHtml s @ escapeHtml t
   \<and> escapeHtml ''&'' = ''&amp;'' \<and> escapeHtml ''<'' = ''&lt;'' \<and> escapeHtml ''>'' = ''&gt;''
   \<and> escapeHtml [CHR 0x22] = ''&quot;'' \<and> escapeHtml [CHR 0x27] = ''&#039;''
   \<and> (c \<noteq> CHR ''&'' \<and> \<not> isMarkupChar c \<longrightarrow> escapeHtml [c] = [c])
   \<and> filter isMarkupChar (escapeHtml s) = []
   \<and> ampersandsEscaped (escapeHtml s)
   \<and> (\<exists>a0 a1 a2 a3 a4 a5 a6 a7 a8. \<forall>fm cp. renderCoverPageHtml fm cp
         = a0 @ coverImageStyle cp @ a1 @ watermarkHtml cp @ a2 @ logoHtml cp @ a3
           @ titleHtml fm @ a4 @ subtitleHtml cp @ a5 @ metaHtml fm cp @ a6
           @ revisionHtml cp @ a7 @ legalHtml cp @ a8)
   \<and> (\<exists>a b. \<forall>cp. coverImageStyle cp
         = (if truthy (coverImage cp) then a @ escapeHtml (orEmpty (coverImage cp)) @ b
            else []))
   \<and> (\<exists>a b. \<forall>cp. watermarkHtml cp
         = (if truthy (watermark cp) then a @ escapeHtml (orEmpty (watermark cp)) @ b
            else []))
   \<and> (\<exists>a b. \<forall>cp. logoHtml cp
         = (if truthy (logo cp) then a @ escapeHtml (orEmpty (logo cp)) @ b else []))
   \<and> (\<exists>a b. \<forall>fm. titleHtml fm = a @ escapeHtml (title fm) @ b)
   \<and> (\<exists>a b. \<forall>cp. subtitleHtml cp
         = (if truthy (subtitle cp) then a @ escapeHtml (orEmpty (subtitle cp)) @ b
            else []))
   \<and> (\<exists>a b sep. \<forall>fm cp. metaHtml fm cp
         = (if filter (\<lambda>entry. truthy (snd entry)) (metaFields fm cp) \<noteq> []
            then a @ js_join sep
                     (map metaRow
                        (filter (\<lambda>entry. truthy (snd entry)) (metaFields fm cp))) @ b
            else []))
   \<and> (\<exists>a b c. \<forall>label value. metaRow (label, value)
         = a @ escapeHtml label @ b @ escapeHtml (orEmpty value) @ c)
   \<and> map snd (metaFields fm cp)
       = [organization cp, department cp, documentNumber cp, documentType cp, status cp,
          classification cp, CoverPage.date cp, effectiveDate cp, reviewDate cp,
          FormMetadata.version fm, FormMetadata.author fm, preparedBy cp, reviewedBy cp,
          approvedBy cp]
   \<and> (\<exists>a b sep. \<forall>cp. revisionHtml cp
         = (case revisionHistory cp of
              None \<Rightarrow> []
            | Some history \<Rightarrow>
                if length history > 0 then a @ js_join sep (map revisionRow history) @ b
                else []))
   \<and> (\<exists>a b c d e. \<forall>entry. revisionRow entry
         = a @ escapeHtml (RevisionEntry.version entry) @ b
           @ escapeHtml (RevisionEntry.date entry) @ c
           @ escapeHtml (RevisionEntry.author entry) @ d
           @ escapeHtml (RevisionEntry.description entry) @ e)
   \<and> (\<exists>a b p q sep. \<forall>cp. legalHtml cp
         = (if length (legalFields cp) > 0
            then a @ js_join sep (map (\<lambda>t. p @ escapeHtml t @ q) (legalFields cp)) @ b
            else []))
   \<and> legalFields cp
       = map orEmpty
           (filter truthy [CoverPage.copyright cp, disclaimer cp, distributionStatement cp])
   \<and> (\<exists>a b. \<forall>t. renderCoverPageHtml (fm\<lparr> title := t \<rparr>) cp = a @ escapeHtml t @ b)
   \<and> ampersandsEscaped (renderCoverPageHtml fm cp)
   \<and> (sameShape fm cp fm' cp' \<longrightarrow>
        filter isMarkupChar (renderCoverPageHtml fm cp)
          = filter isMarkupChar (renderCoverPageHtml fm' cp'))"
proof -
  have chars: "escapeHtml ''&'' = ''&amp;'' \<and> escapeHtml ''<'' = ''&lt;''
     \<and> escapeHtml ''>'' = ''&gt;'' \<and> escapeHtml [CHR 0x22] = ''&quot;''
     \<and> escapeHtml [CHR 0x27] = ''&#039;''"
    by (simp add: escapeHtml_def escapeChar_def)
  have other: "c \<noteq> CHR ''&'' \<and> \<not> isMarkupChar c \<longrightarrow> escapeHtml [c] = [c]"
    by (simp add: escapeHtml_other)
  have shape: "sameShape fm cp fm' cp' \<longrightarrow>
        filter isMarkupChar (renderCoverPageHtml fm cp)
          = filter isMarkupChar (renderCoverPageHtml fm' cp')"
    by (simp add: markup_render)
  show ?thesis
    by (intro conjI chars [THEN conjunct1] chars [THEN conjunct2, THEN conjunct1]
          chars [THEN conjunct2, THEN conjunct2, THEN conjunct1]
          chars [THEN conjunct2, THEN conjunct2, THEN conjunct2, THEN conjunct1]
          chars [THEN conjunct2, THEN conjunct2, THEN conjunct2, THEN conjunct2]
          other shape escapeHtml_append filter_markup_escapeHtml ampersandsEscaped_escapeHtml
          render_template coverImageStyle_template watermarkHtml_template logoHtml_template
          titleHtml_template subtitleHtml_template metaHtml_template metaRow_template
          metaFields_values revisionHtml_template revisionRow_template legalHtml_template
          legalFields_values render_title_context amp_render)
qed

theorem renderCoverPageHtml_escaped_witness:
  "sameShape hostileForm hostileCoverPage plainForm plainCoverPage
   \<and> filter isMarkupChar (renderCoverPageHtml hostileForm hostileCoverPage)
       = filter isMarkupChar (renderCoverPageHtml plainForm plainCoverPage)
   \<and> CHR ''a'' \<noteq> CHR ''&'' \<and> \<not> isMarkupChar CHR ''a'' \<and> escapeHtml ''a'' = ''a''
   \<and> escapeHtml (title hostileForm)
       = ''&lt;script&gt;alert(&quot;x&quot;)&lt;/script&gt; &amp; more''
   \<and> titleHtml (hostileForm\<lparr> title := ''&lt;b&gt;'' \<rparr>)
       = ''<h1 class=\"cover-title\">&amp;lt;b&amp;gt;</h1>''"
proof -
  have shape: "sameShape hostileForm hostileCoverPage plainForm plainCoverPage"
    by (simp add: sameShape_def hostileForm_def hostileCoverPage_def plainForm_def
          plainCoverPage_def emptyCoverPage_def metaFields_def historyLength_def truthy_def)
  have plain: "CHR ''a'' \<noteq> CHR ''&'' \<and> \<not> isMarkupChar CHR ''a''"
    by (simp add: isMarkupChar_def)
  have esc: "escapeHtml (title hostileForm)
       = ''&lt;script&gt;alert(&quot;x&quot;)&lt;/script&gt; &amp; more''"
    by (simp add: hostileForm_def escapeHtml_def escapeChar_def)
  have entity: "titleHtml (hostileForm\<lparr> title := ''&lt;b&gt;'' \<rparr>)
       = ''<h1 class=\"cover-title\">&amp;lt;b&amp;gt;</h1>''"
    by (simp add: titleHtml_def escapeHtml_def escapeChar_def)
  note claim = renderCoverPageHtml_escaped [where fm = hostileForm and cp = hostileCoverPage and fm' = plainForm
      and cp' = plainCoverPage and c = "CHR ''a''"]
  from claim shape
  have markup: "filter isMarkupChar (renderCoverPageHtml hostileForm hostileCoverPage)
       = filter isMarkupChar (renderCoverPageHtml plainForm plainCoverPage)"
    by blast
  from claim plain have "escapeHtml ''a'' = ''a''"
    by blast
  with shape markup plain esc entity show ?thesis by simp
qed

end
